theory Spec2Isabelle
  imports Complex_Main
begin

section \<open>Battery discharge loggers: li-battery\_2S\_logger.py and li-cell\_logger.py\<close>

text \<open>
  Both scripts are module-level Python programs. They are embedded as state-passing
  functions over one record holding the program variables, the relay outputs and the
  calls made on the relays, the lines written to the log file and to the console, and
  read cursors into the environment. Python floats are idealised as real numbers; an exception is a value
  of type \<open>exn\<close>; a loop that need not end is a \<open>partial_function\<close> whose value
  \<open>None\<close> means that the loop runs forever. Besides raising an exception, the process
  can be ended from outside without one (the default action of SIGTERM, or SIGKILL):
  nothing of the script runs after that, not even a \<open>finally\<close> block. A keyboard
  interrupt (SIGINT) is the exception \<open>KeyboardInterrupt\<close>.
\<close>

subsection \<open>Exceptions, values and output lines\<close>

datatype exn = IndexError | ValueError | TypeError | ZeroDivisionError | OSError | KeyboardInterrupt

text \<open>
  How a piece of the script stops early: an exception is raised, or the process is
  killed by a signal that Python does not turn into an exception.
\<close>

datatype stop = Raised exn | Killed

text \<open>What \<open>read_temp\<close> can hand back: Python's \<open>None\<close> or a number.\<close>

datatype tval = TNone | TNum real

text \<open>
  One constructor for each \<open>logging.info\<close> and \<open>print\<close> call of the two scripts,
  carrying the values that are formatted into the line.
\<close>

datatype msg =
    Started real real
  | StartTemp tval
  | Reading real real real
  | Progress real real real real
  | CellReading real real
  | TotalTime real
  | Capacity real
  | RunEnded real real real
  | RawLines "string list"

text \<open>A call of \<open>on()\<close> or \<open>off()\<close> on relay 1 to 4.\<close>

datatype relay_call = RelayOn nat | RelayOff nat

subsection \<open>Run parameters, environment and state\<close>

record config =
  endVoltage :: real
  logInterval :: real
  readingsToAverage :: nat

definition config_2S :: config where
  "config_2S = \<lparr>endVoltage = 5.8, logInterval = 15, readingsToAverage = 8\<rparr>"

definition config_cell :: config where
  "config_cell = \<lparr>endVoltage = 2.7, logInterval = 15, readingsToAverage = 1\<rparr>"

text \<open>
  The environment fixes what every access to the outside world yields: the k-th read
  of \<open>ina260.voltage\<close> and of \<open>ina260.current\<close>, the k-th read of the one-wire
  device file, whether the k-th \<open>sleep\<close> is cut short by an exception (an
  interrupt) or by the process being killed, and the reading of the monotonic clock
  after a given number of such actions. The process spends nearly all of its time in
  \<open>sleep\<close>, so that is where the model lets it be killed. \<open>float_of\<close> stands for Python's builtin \<open>float\<close> on strings, with
  \<open>None\<close> for the strings on which it raises \<open>ValueError\<close>.
\<close>

record env =
  voltage_at :: "nat \<Rightarrow> exn + real"
  current_at :: "nat \<Rightarrow> exn + real"
  w1_slave_at :: "nat \<Rightarrow> exn + string list"
  sleep_at :: "nat \<Rightarrow> stop option"
  monotonic_at :: "nat \<Rightarrow> int"
  float_of :: "string \<Rightarrow> real option"

record state =
  nV :: nat
  nA :: nat
  nT :: nat
  nS :: nat
  relay1 :: bool
  relay2 :: bool
  relay3 :: bool
  relay4 :: bool
  relay_calls :: "relay_call list"
  log_lines :: "msg list"
  console :: "msg list"
  volts :: real
  readCount :: nat
  Vave :: real
  Aave :: real
  Tave :: real
  averageCurrent :: real
  totalReadings :: nat
  temperature :: tval
  startTime :: int

text \<open>
  The state after the module-level assignments: the four \<open>LED\<close> outputs are created
  switched off, \<open>averageCurrent\<close>, \<open>totalReadings\<close> and \<open>temperature\<close> are 0.
\<close>

definition init_state :: state where
  "init_state = \<lparr>nV = 0, nA = 0, nT = 0, nS = 0,
     relay1 = False, relay2 = False, relay3 = False, relay4 = False,
     relay_calls = [], log_lines = [], console = [],
     volts = 0, readCount = 0, Vave = 0, Aave = 0, Tave = 0,
     averageCurrent = 0, totalReadings = 0, temperature = TNum 0, startTime = 0\<rparr>"

subsection \<open>Primitive operations\<close>

definition py_div :: "real \<Rightarrow> real \<Rightarrow> exn + real" where
  "py_div a b = (if b = 0 then Inl ZeroDivisionError else Inr (a / b))"

definition py_index :: "'a list \<Rightarrow> nat \<Rightarrow> exn + 'a" where
  "py_index xs i = (if i < length xs then Inr (xs ! i) else Inl IndexError)"

text \<open>\<open>Tave + Tdat\<close>: adding \<open>None\<close> to a number raises \<open>TypeError\<close>.\<close>

definition py_add :: "real \<Rightarrow> tval \<Rightarrow> exn + real" where
  "py_add a t = (case t of TNone \<Rightarrow> Inl TypeError | TNum x \<Rightarrow> Inr (a + x))"

definition monotonic_ns :: "env \<Rightarrow> state \<Rightarrow> int" where
  "monotonic_ns env s = monotonic_at env (nS s + nV s + nA s + nT s)"

text \<open>\<open>time.sleep\<close> raises \<open>ValueError\<close> on a negative length.\<close>

definition sleep :: "env \<Rightarrow> real \<Rightarrow> state \<Rightarrow> stop option \<times> state" where
  "sleep env d s =
     (if d < 0 then (Some (Raised ValueError), s) else (sleep_at env (nS s), s\<lparr>nS := nS s + 1\<rparr>))"

definition read_voltage :: "env \<Rightarrow> state \<Rightarrow> (exn + real) \<times> state" where
  "read_voltage env s = (voltage_at env (nV s), s\<lparr>nV := nV s + 1\<rparr>)"

definition read_current :: "env \<Rightarrow> state \<Rightarrow> (exn + real) \<times> state" where
  "read_current env s = (current_at env (nA s), s\<lparr>nA := nA s + 1\<rparr>)"

subsection \<open>String operations used by \<open>read_temp\<close>\<close>

text \<open>The characters below 256 for which \<open>str.isspace\<close> holds.\<close>

definition is_space :: "char \<Rightarrow> bool" where
  "is_space c = (of_char c \<in> {9, 10, 11, 12, 13, 28, 29, 30, 31, 32, 133, 160 :: nat})"

definition strip :: "string \<Rightarrow> string" where
  "strip s = rev (dropWhile is_space (rev (dropWhile is_space s)))"

text \<open>\<open>s[-3:]\<close>: the last three characters, or all of a shorter string.\<close>

definition last3 :: "string \<Rightarrow> string" where
  "last3 s = drop (length s - 3) s"

text \<open>\<open>s.find(sub)\<close>, counting from position \<open>i\<close>; \<open>None\<close> stands for -1.\<close>

fun find_from :: "string \<Rightarrow> string \<Rightarrow> nat \<Rightarrow> nat option" where
  "find_from sub [] i = (if sub = [] then Some i else None)"
| "find_from sub (c # cs) i =
     (if take (length sub) (c # cs) = sub then Some i else find_from sub cs (Suc i))"

definition find_str :: "string \<Rightarrow> string \<Rightarrow> nat option" where
  "find_str s sub = find_from sub s 0"

subsection \<open>The temperature sub-read\<close>

definition read_temp_raw :: "env \<Rightarrow> state \<Rightarrow> (exn + string list) \<times> state" where
  "read_temp_raw env s = (w1_slave_at env (nT s), s\<lparr>nT := nT s + 1\<rparr>)"

text \<open>
  The retry loop of \<open>read_temp\<close> (lines 104 to 106), inside the \<open>try\<close>. It returns
  what stopped it, if anything, with the value of \<open>lines\<close> at that moment.
\<close>

partial_function (option) retry_loop ::
  "env \<Rightarrow> string list \<Rightarrow> state \<Rightarrow> (stop option \<times> string list \<times> state) option" where
  "retry_loop env lines s =
     (case py_index lines 0 of
        Inl e \<Rightarrow> Some (Some (Raised e), lines, s)
      | Inr l0 \<Rightarrow>
          if last3 (strip l0) \<noteq> ''YES'' then
            (case sleep env 0.2 s of
               (Some e, s1) \<Rightarrow> Some (Some e, lines, s1)
             | (None, s1) \<Rightarrow>
                 (case read_temp_raw env s1 of
                    (Inl e, s2) \<Rightarrow> Some (Some (Raised e), lines, s2)
                  | (Inr lines', s2) \<Rightarrow> retry_loop env lines' s2))
          else Some (None, lines, s))"

declare retry_loop.simps [code]

text \<open>
  Lines 107 to 111: \<open>Inl\<close> is an exception raised inside the \<open>try\<close>; \<open>Inr TNone\<close> is
  the function running off its end when the marker \<open>t=\<close> is not found.
\<close>

definition parse_temp :: "env \<Rightarrow> string list \<Rightarrow> exn + tval" where
  "parse_temp env lines =
     (case py_index lines 1 of
        Inl e \<Rightarrow> Inl e
      | Inr l1 \<Rightarrow>
          (case find_str l1 ''t='' of
             None \<Rightarrow> Inr TNone
           | Some equals_pos \<Rightarrow>
               (case float_of env (drop (equals_pos + 2) l1) of
                  None \<Rightarrow> Inl ValueError
                | Some x \<Rightarrow> Inr (TNum (x / 1000)))))"

text \<open>
  \<open>read_temp\<close>: the first \<open>read_temp_raw\<close> is outside the \<open>try\<close>, so its exception
  propagates; every exception after it is caught, \<open>lines\<close> is printed and -99 returned.
  A kill is not an exception and is not caught.
\<close>

definition read_temp :: "env \<Rightarrow> state \<Rightarrow> ((stop + tval) \<times> state) option" where
  "read_temp env s =
     (case read_temp_raw env s of
        (Inl e, s1) \<Rightarrow> Some (Inl (Raised e), s1)
      | (Inr lines, s1) \<Rightarrow>
          (case retry_loop env lines s1 of
             None \<Rightarrow> None
           | Some (Some Killed, lines', s2) \<Rightarrow> Some (Inl Killed, s2)
           | Some (Some (Raised e), lines', s2) \<Rightarrow>
               Some (Inr (TNum (- 99)), s2\<lparr>console := console s2 @ [RawLines lines']\<rparr>)
           | Some (None, lines', s2) \<Rightarrow>
               (case parse_temp env lines' of
                  Inl e \<Rightarrow> Some (Inr (TNum (- 99)), s2\<lparr>console := console s2 @ [RawLines lines']\<rparr>)
                | Inr t \<Rightarrow> Some (Inr t, s2))))"

subsection \<open>li-battery\_2S\_logger.py: the averaging logger\<close>

text \<open>
  Lines 142 to 152, run when \<open>readCount >= readingsToAverage\<close>: one record is
  logged, the accumulator is reset and the run-level tally is advanced.
\<close>

definition emit_record :: "config \<Rightarrow> env \<Rightarrow> state \<Rightarrow> stop option \<times> state" where
  "emit_record cfg env s =
     (case py_div (Vave s) (real (readingsToAverage cfg)) of
        Inl e \<Rightarrow> (Some (Raised e), s)
      | Inr v \<Rightarrow>
          (case py_div (Aave s) (real (readingsToAverage cfg)) of
             Inl e \<Rightarrow> (Some (Raised e), s\<lparr>volts := v\<rparr>)
           | Inr c \<Rightarrow>
               (case py_div (Tave s) (real (readingsToAverage cfg)) of
                  Inl e \<Rightarrow> (Some (Raised e), s\<lparr>volts := v\<rparr>)
                | Inr t \<Rightarrow>
                    (None, s\<lparr>volts := v, temperature := TNum t,
                       readCount := 0, Vave := 0, Aave := 0, Tave := 0,
                       log_lines := log_lines s @ [Reading v c t],
                       console := console s @
                         [Progress (real_of_int (monotonic_ns env s - startTime s) / 1000000000) v c t],
                       averageCurrent := averageCurrent s + c,
                       totalReadings := totalReadings s + 1\<rparr>))))"

text \<open>One pass through the body of the \<open>while\<close> loop, lines 132 to 152.\<close>

definition loop_body :: "config \<Rightarrow> env \<Rightarrow> state \<Rightarrow> (stop option \<times> state) option" where
  "loop_body cfg env s =
     (case py_div (logInterval cfg) (real (readingsToAverage cfg)) of
        Inl e \<Rightarrow> Some (Some (Raised e), s)
      | Inr d \<Rightarrow>
          (case sleep env d s of
             (Some e, s1) \<Rightarrow> Some (Some e, s1)
           | (None, s1) \<Rightarrow>
               (case read_voltage env s1 of
                  (Inl e, s2) \<Rightarrow> Some (Some (Raised e), s2)
                | (Inr Vdat, s2) \<Rightarrow>
                    (case read_current env s2 of
                       (Inl e, s3) \<Rightarrow> Some (Some (Raised e), s3)
                     | (Inr Adat, s3) \<Rightarrow>
                         (case read_temp env s3 of
                            None \<Rightarrow> None
                          | Some (Inl e, s4) \<Rightarrow> Some (Some e, s4)
                          | Some (Inr Tdat, s4) \<Rightarrow>
                              (case py_add (Tave s4) Tdat of
                                 Inl e \<Rightarrow>
                                   Some (Some (Raised e), s4\<lparr>Vave := Vave s4 + Vdat, Aave := Aave s4 + Adat\<rparr>)
                               | Inr T \<Rightarrow>
                                   (let s5 = s4\<lparr>Vave := Vave s4 + Vdat, Aave := Aave s4 + Adat,
                                                Tave := T, readCount := readCount s4 + 1\<rparr>
                                    in if readCount s5 \<ge> readingsToAverage cfg
                                       then Some (emit_record cfg env s5)
                                       else Some (None, s5))))))))"

partial_function (option) main_loop ::
  "config \<Rightarrow> env \<Rightarrow> state \<Rightarrow> (stop option \<times> state) option" where
  "main_loop cfg env s =
     (if volts s > endVoltage cfg then
        (case loop_body cfg env s of
           None \<Rightarrow> None
         | Some (Some e, s') \<Rightarrow> Some (Some e, s')
         | Some (None, s') \<Rightarrow> main_loop cfg env s')
      else Some (None, s))"

declare main_loop.simps [code]

text \<open>Lines 117 to 129: everything in the \<open>try\<close> block before the loop.\<close>

definition startup :: "config \<Rightarrow> env \<Rightarrow> state \<Rightarrow> (stop option \<times> state) option" where
  "startup cfg env s =
     (case read_voltage env s of
        (Inl e, s1) \<Rightarrow> Some (Some (Raised e), s1)
      | (Inr v, s1) \<Rightarrow>
          (let s2 = s1\<lparr>volts := v,
                       log_lines := log_lines s1 @ [Started v (endVoltage cfg)],
                       console := console s1 @ [Started v (endVoltage cfg)]\<rparr>
           in case read_temp env s2 of
                None \<Rightarrow> None
              | Some (Inl e, s3) \<Rightarrow> Some (Some e, s3)
              | Some (Inr t, s3) \<Rightarrow>
                  Some (None, s3\<lparr>temperature := t,
                                 console := console s3 @ [StartTemp t],
                                 relay1 := True,
                                 relay_calls := relay_calls s3 @ [RelayOn 1],
                                 readCount := 0, Vave := 0, Aave := 0, Tave := 0,
                                 startTime := monotonic_ns env s3\<rparr>)))"

text \<open>Lines 155 to 164: the end-of-run statistics, after the loop and inside the \<open>try\<close>.\<close>

definition summary :: "env \<Rightarrow> state \<Rightarrow> stop option \<times> state" where
  "summary env s =
     (case (if totalReadings s > 0
            then py_div (averageCurrent s) (real (totalReadings s))
            else Inr (averageCurrent s)) of
        Inl e \<Rightarrow> (Some (Raised e), s)
      | Inr a \<Rightarrow>
          (let totalSeconds = real_of_int (monotonic_ns env s - startTime s) / 1000000000;
               totalHours = totalSeconds / 3600;
               capacity = a * totalHours
           in (None, s\<lparr>averageCurrent := a,
                       log_lines := log_lines s @ [TotalTime totalHours, Capacity capacity],
                       console := console s @ [RunEnded a totalHours capacity]\<rparr>)))"

definition try_block :: "config \<Rightarrow> env \<Rightarrow> state \<Rightarrow> (stop option \<times> state) option" where
  "try_block cfg env s =
     (case startup cfg env s of
        None \<Rightarrow> None
      | Some (Some e, s1) \<Rightarrow> Some (Some e, s1)
      | Some (None, s1) \<Rightarrow>
          (case main_loop cfg env s1 of
             None \<Rightarrow> None
           | Some (Some e, s2) \<Rightarrow> Some (Some e, s2)
           | Some (None, s2) \<Rightarrow> Some (summary env s2)))"

text \<open>
  The \<open>finally\<close> block, the same in both scripts: \<open>off()\<close> is called on the four
  relays in turn.
\<close>

definition finally_block :: "state \<Rightarrow> state" where
  "finally_block s =
     s\<lparr>relay1 := False, relay2 := False, relay3 := False, relay4 := False,
       relay_calls := relay_calls s @ [RelayOff 1, RelayOff 2, RelayOff 3, RelayOff 4]\<rparr>"

text \<open>
  Leaving the \<open>try\<close> statement: the \<open>finally\<close> block runs after normal completion
  and after an exception, and does not run when the process was killed.
\<close>

definition leave_try :: "stop option \<Rightarrow> state \<Rightarrow> state" where
  "leave_try r s = (if r = Some Killed then s else finally_block s)"

text \<open>
  The whole script from the \<open>try\<close> on: \<open>None\<close> when it never ends, otherwise
  what stopped it (an exception that leaves the \<open>try\<close> statement, or a kill), if
  anything, and the final state.
\<close>

definition run_2S :: "config \<Rightarrow> env \<Rightarrow> (stop option \<times> state) option" where
  "run_2S cfg env =
     (case try_block cfg env init_state of
        None \<Rightarrow> None
      | Some (r, s) \<Rightarrow> Some (r, leave_try r s))"

subsection \<open>li-cell\_logger.py: the single-sample logger\<close>

definition cell_body :: "config \<Rightarrow> env \<Rightarrow> state \<Rightarrow> stop option \<times> state" where
  "cell_body cfg env s =
     (case sleep env (logInterval cfg) s of
        (Some e, s1) \<Rightarrow> (Some e, s1)
      | (None, s1) \<Rightarrow>
          (case read_voltage env s1 of
             (Inl e, s2) \<Rightarrow> (Some (Raised e), s2)
           | (Inr v, s2) \<Rightarrow>
               (case read_current env (s2\<lparr>volts := v\<rparr>) of
                  (Inl e, s3) \<Rightarrow> (Some (Raised e), s3)
                | (Inr c, s3) \<Rightarrow>
                    (None, s3\<lparr>log_lines := log_lines s3 @ [CellReading v c],
                               averageCurrent := averageCurrent s3 + c,
                               totalReadings := totalReadings s3 + 1\<rparr>))))"

partial_function (option) cell_loop ::
  "config \<Rightarrow> env \<Rightarrow> state \<Rightarrow> (stop option \<times> state) option" where
  "cell_loop cfg env s =
     (if volts s > endVoltage cfg then
        (case cell_body cfg env s of
           (Some e, s') \<Rightarrow> Some (Some e, s')
         | (None, s') \<Rightarrow> cell_loop cfg env s')
      else Some (None, s))"

declare cell_loop.simps [code]

definition cell_startup :: "config \<Rightarrow> env \<Rightarrow> state \<Rightarrow> stop option \<times> state" where
  "cell_startup cfg env s =
     (case read_voltage env s of
        (Inl e, s1) \<Rightarrow> (Some (Raised e), s1)
      | (Inr v, s1) \<Rightarrow>
          (None, s1\<lparr>volts := v,
                     log_lines := log_lines s1 @ [Started v (endVoltage cfg)],
                     console := console s1 @ [Started v (endVoltage cfg)],
                     relay2 := True,
                     relay_calls := relay_calls s1 @ [RelayOn 2]\<rparr>))"

text \<open>Lines 98 to 106 of the single-sample logger.\<close>

definition cell_summary :: "config \<Rightarrow> state \<Rightarrow> stop option \<times> state" where
  "cell_summary cfg s =
     (case (if totalReadings s > 0
            then py_div (averageCurrent s) (real (totalReadings s))
            else Inr (averageCurrent s)) of
        Inl e \<Rightarrow> (Some (Raised e), s)
      | Inr a \<Rightarrow>
          (let totalHours = logInterval cfg * real (totalReadings s) / 3600;
               capacity = a * totalHours
           in (None, s\<lparr>averageCurrent := a,
                       log_lines := log_lines s @ [TotalTime totalHours, Capacity capacity],
                       console := console s @ [RunEnded a totalHours capacity]\<rparr>)))"

definition cell_try_block :: "config \<Rightarrow> env \<Rightarrow> state \<Rightarrow> (stop option \<times> state) option" where
  "cell_try_block cfg env s =
     (case cell_startup cfg env s of
        (Some e, s1) \<Rightarrow> Some (Some e, s1)
      | (None, s1) \<Rightarrow>
          (case cell_loop cfg env s1 of
             None \<Rightarrow> None
           | Some (Some e, s2) \<Rightarrow> Some (Some e, s2)
           | Some (None, s2) \<Rightarrow> Some (cell_summary cfg s2)))"

definition run_cell :: "config \<Rightarrow> env \<Rightarrow> (stop option \<times> state) option" where
  "run_cell cfg env =
     (case cell_try_block cfg env init_state of
        None \<Rightarrow> None
      | Some (r, s) \<Rightarrow> Some (r, leave_try r s))"

subsection \<open>Observations on logs and samples\<close>

text \<open>
  The definitions below are not part of the scripts: they read the log and console
  lines of a final state and the samples of an environment, so that the properties of
  the scripts can be stated.
\<close>

text \<open>The three kinds of end-of-run line: the two logged ones and the printed one.\<close>

fun is_summary :: "msg \<Rightarrow> bool" where
  "is_summary (TotalTime h) = True"
| "is_summary (Capacity c) = True"
| "is_summary (RunEnded a h c) = True"
| "is_summary m = False"

definition summaries :: "msg list \<Rightarrow> msg list" where
  "summaries ms = filter is_summary ms"

text \<open>\<open>only_io s s'\<close>: from \<open>s\<close> to \<open>s'\<close> only the cursors of the device file and of
  \<open>sleep\<close> and the console moved, and no end-of-run line was printed.\<close>

definition only_io :: "state \<Rightarrow> state \<Rightarrow> bool" where
  "only_io s s' \<longleftrightarrow>
     s' = s\<lparr>nT := nT s', nS := nS s', console := console s'\<rparr> \<and>
     summaries (console s') = summaries (console s)"

text \<open>The averaged (or raw) voltage and current of a logged record.\<close>

fun reading_of :: "msg \<Rightarrow> (real \<times> real) option" where
  "reading_of (Reading v c t) = Some (v, c)"
| "reading_of (CellReading v c) = Some (v, c)"
| "reading_of m = None"

definition records :: "msg list \<Rightarrow> (real \<times> real) list" where
  "records ms = List.map_filter reading_of ms"

text \<open>\<open>window_of g b n\<close>: the values of the \<open>n\<close> consecutive reads \<open>g b, \<dots>, g (b + n - 1)\<close>,
  or \<open>None\<close> when one of them raised.\<close>

fun window_of :: "(nat \<Rightarrow> exn + real) \<Rightarrow> nat \<Rightarrow> nat \<Rightarrow> real list option" where
  "window_of g b 0 = Some []"
| "window_of g b (Suc n) =
     (case window_of g b n of
        None \<Rightarrow> None
      | Some xs \<Rightarrow> (case g (b + n) of Inl e \<Rightarrow> None | Inr x \<Rightarrow> Some (xs @ [x])))"

text \<open>The arithmetic mean.\<close>

definition mean :: "real list \<Rightarrow> real" where
  "mean xs = sum_list xs / real (length xs)"

text \<open>\<open>is_window_mean cfg env bV bA j r\<close>: the pair \<open>r\<close> holds the means of the \<open>j\<close>-th
  window of \<open>readingsToAverage\<close> consecutive voltage reads, counted from read \<open>bV\<close>, and
  of the \<open>j\<close>-th window of current reads, counted from read \<open>bA\<close>.\<close>

definition is_window_mean :: "config \<Rightarrow> env \<Rightarrow> nat \<Rightarrow> nat \<Rightarrow> nat \<Rightarrow> real \<times> real \<Rightarrow> bool" where
  "is_window_mean cfg env bV bA j r =
     (case window_of (voltage_at env) (bV + j * readingsToAverage cfg) (readingsToAverage cfg) of
        None \<Rightarrow> False
      | Some vs \<Rightarrow>
          (case window_of (current_at env) (bA + j * readingsToAverage cfg) (readingsToAverage cfg) of
             None \<Rightarrow> False
           | Some cs \<Rightarrow> r = (mean vs, mean cs)))"

text \<open>Hours on the monotonic clock between two states of a run.\<close>

definition hours_between :: "env \<Rightarrow> state \<Rightarrow> state \<Rightarrow> real" where
  "hours_between env s0 s1 = real_of_int (monotonic_ns env s1 - monotonic_ns env s0) / 1000000000 / 3600"

text \<open>The values the end-of-run statistics compute from the state at loop exit.\<close>

definition final_average :: "state \<Rightarrow> real" where
  "final_average s =
     (if totalReadings s > 0 then averageCurrent s / real (totalReadings s) else averageCurrent s)"

definition wall_hours :: "env \<Rightarrow> state \<Rightarrow> real" where
  "wall_hours env s = real_of_int (monotonic_ns env s - startTime s) / 1000000000 / 3600"

definition nominal_hours :: "config \<Rightarrow> state \<Rightarrow> real" where
  "nominal_hours cfg s = logInterval cfg * real (totalReadings s) / 3600"

subsection \<open>Concrete inputs\<close>

text \<open>A parser for the decimal literals that Python's \<open>float\<close> accepts: surrounding
  whitespace, an optional sign, digits with single underscores between them, an
  optional fraction and an optional exponent. It stands for \<open>float\<close> in the concrete
  environments below. The words \<open>inf\<close>, \<open>infinity\<close> and \<open>nan\<close>, which \<open>float\<close> also
  accepts, denote no real number and are refused here; the rounding of \<open>float\<close> to a
  double is left out, as everywhere.\<close>

definition dec_digit :: "char \<Rightarrow> nat option" where
  "dec_digit c = (let n = of_char c :: nat in if 48 \<le> n \<and> n \<le> 57 then Some (n - 48) else None)"

fun dec_digitpart :: "bool \<Rightarrow> nat \<Rightarrow> string \<Rightarrow> nat option" where
  "dec_digitpart prev acc [] = (if prev then Some acc else None)"
| "dec_digitpart prev acc (c # cs) =
     (if c = CHR ''_'' then (if prev \<and> cs \<noteq> [] then dec_digitpart False acc cs else None)
      else case dec_digit c of
             None \<Rightarrow> None
           | Some d \<Rightarrow> dec_digitpart True (10 * acc + d) cs)"

definition dec_mantissa :: "string \<Rightarrow> real option" where
  "dec_mantissa m =
     (let ip = takeWhile (\<lambda>c. c \<noteq> CHR ''.'') m;
          rest = dropWhile (\<lambda>c. c \<noteq> CHR ''.'') m
      in if rest = [] then map_option real (dec_digitpart False 0 ip)
         else let fp = tl rest
              in if ip = [] \<and> fp = [] then None
                 else case (if ip = [] then Some 0 else dec_digitpart False 0 ip) of
                        None \<Rightarrow> None
                      | Some i \<Rightarrow>
                          (case (if fp = [] then Some 0 else dec_digitpart False 0 fp) of
                             None \<Rightarrow> None
                           | Some f \<Rightarrow>
                               Some (real i +
                                 real f / 10 ^ length (filter (\<lambda>c. c \<noteq> CHR ''_'') fp))))"

definition dec_exponent :: "string \<Rightarrow> (bool \<times> nat) option" where
  "dec_exponent e =
     (case e of
        [] \<Rightarrow> None
      | c # cs \<Rightarrow>
          if c = CHR ''-'' then map_option (Pair True) (dec_digitpart False 0 cs)
          else if c = CHR ''+'' then map_option (Pair False) (dec_digitpart False 0 cs)
          else map_option (Pair False) (dec_digitpart False 0 (c # cs)))"

definition is_e :: "char \<Rightarrow> bool" where
  "is_e c = (c = CHR ''e'' \<or> c = CHR ''E'')"

definition dec_unsigned :: "string \<Rightarrow> real option" where
  "dec_unsigned t =
     (let m = takeWhile (\<lambda>c. \<not> is_e c) t; rest = dropWhile (\<lambda>c. \<not> is_e c) t
      in case dec_mantissa m of
           None \<Rightarrow> None
         | Some x \<Rightarrow>
             if rest = [] then Some x
             else (case dec_exponent (tl rest) of
                     None \<Rightarrow> None
                   | Some (neg, k) \<Rightarrow> Some (if neg then x / 10 ^ k else x * 10 ^ k)))"

definition dec_float :: "string \<Rightarrow> real option" where
  "dec_float s =
     (case strip s of
        [] \<Rightarrow> None
      | c # cs \<Rightarrow>
          if c = CHR ''-'' then map_option uminus (dec_unsigned cs)
          else if c = CHR ''+'' then dec_unsigned cs
          else dec_unsigned (c # cs))"

text \<open>A device file as the DS18B20 driver writes it, with the newline ending each line.\<close>

definition w1_valid :: "string list" where
  "w1_valid = [''72 01 4b 46 7f ff 0e 10 57 : crc=57 YES\<newline>'',
               ''72 01 4b 46 7f ff 0e 10 57 t=23125\<newline>'']"

text \<open>The example run of the specification with the parameters of the script: eight
  samples alternating between 6.0 and 5.9 V, then eight samples of 5.7 V; every action
  takes one second.\<close>

definition env_example :: env where
  "env_example = \<lparr>
     voltage_at = (\<lambda>k. Inr (if k = 0 then 6 else if k \<le> 8 then (if even k then 5.9 else 6) else 5.7)),
     current_at = (\<lambda>k. Inr 800),
     w1_slave_at = (\<lambda>k. Inr w1_valid),
     sleep_at = (\<lambda>k. None),
     monotonic_at = (\<lambda>k. 1000000000 * int k),
     float_of = dec_float\<rparr>"

text \<open>The state in which that run ends.\<close>

definition st_example :: state where
  "st_example = \<lparr>nV = 17, nA = 16, nT = 17, nS = 16, relay1 = False, relay2 = False,
      relay3 = False, relay4 = False,
      relay_calls = [RelayOn 1, RelayOff 1, RelayOff 2, RelayOff 3, RelayOff 4],
      log_lines =
        [Started 6 (29 / 5), Reading (119 / 20) 800 (185 / 8),
         Reading (57 / 10) 800 (185 / 8), TotalTime (4 / 225),
         Capacity (128 / 9)],
      console =
        [Started 6 (29 / 5), StartTemp (TNum (185 / 8)),
         Progress 32 (119 / 20) 800 (185 / 8),
         Progress 64 (57 / 10) 800 (185 / 8),
         RunEnded 800 (4 / 225) (128 / 9)],
      volts = 57 / 10, readCount = 0, Vave = 0, Aave = 0, Tave = 0,
      averageCurrent = 800, totalReadings = 2, temperature = TNum (185 / 8),
      startTime = 2000000000\<rparr>"

text \<open>The voltage sensor fails on its fourth read, in the third pass of the loop.\<close>

definition env_sensor_fault :: env where
  "env_sensor_fault = env_example\<lparr>voltage_at := (\<lambda>k. if k = 3 then Inl OSError else Inr 6)\<rparr>"

text \<open>The third \<open>sleep\<close> is interrupted from the keyboard.\<close>

definition env_interrupt :: env where
  "env_interrupt = env_example\<lparr>voltage_at := (\<lambda>k. Inr 3),
     sleep_at := (\<lambda>k. if k = 2 then Some (Raised KeyboardInterrupt) else None)\<rparr>"

text \<open>The first \<open>sleep\<close> is interrupted from the keyboard, before any record.\<close>

definition env_interrupt_first :: env where
  "env_interrupt_first = env_example\<lparr>sleep_at := (\<lambda>k. if k = 0 then Some (Raised KeyboardInterrupt) else None)\<rparr>"

text \<open>The process is killed during its third \<open>sleep\<close>.\<close>

definition env_killed :: env where
  "env_killed = env_example\<lparr>sleep_at := (\<lambda>k. if k = 2 then Some Killed else None)\<rparr>"

text \<open>Two samples for the single-sample logger; every action takes 5.5 seconds.\<close>

definition env_cell_example :: env where
  "env_cell_example = env_example\<lparr>voltage_at := (\<lambda>k. Inr (if k < 2 then 3 else 2.6)),
     monotonic_at := (\<lambda>k. 5500000000 * int k)\<rparr>"

text \<open>A battery that is already below both end voltages at the start.\<close>

definition env_flat :: env where
  "env_flat = env_example\<lparr>voltage_at := (\<lambda>k. Inr 2.5)\<rparr>"

text \<open>A device file whose first line is valid and whose second line has no \<open>t=\<close>.\<close>

definition w1_no_marker :: "string list" where
  "w1_no_marker = [''72 01 4b 46 7f ff 0e 10 57 : crc=57 YES\<newline>'',
                   ''72 01 4b 46 7f ff 0e 10 57\<newline>'']"

definition env_no_marker :: env where
  "env_no_marker = env_example\<lparr>w1_slave_at := (\<lambda>k. Inr w1_no_marker)\<rparr>"

text \<open>A device file that never becomes valid.\<close>

definition w1_invalid :: "string list" where
  "w1_invalid = [''ff ff ff ff ff ff ff ff ff : crc=c9 NO\<newline>'',
                 ''ff ff ff ff ff ff ff ff ff t=-62\<newline>'']"

definition env_never_valid :: env where
  "env_never_valid = env_example\<lparr>w1_slave_at := (\<lambda>k. Inr w1_invalid)\<rparr>"

text \<open>The condition under which the retry loop of \<open>read_temp\<close> goes round again.\<close>

definition invalid_block :: "string list \<Rightarrow> bool" where
  "invalid_block lines = (case lines of [] \<Rightarrow> False | l0 # rest \<Rightarrow> last3 (strip l0) \<noteq> ''YES'')"

text \<open>States met by the concrete runs.\<close>

definition st_started :: state where
  "st_started =
   \<lparr>nV = 1, nA = 0, nT = 1, nS = 0, relay1 = True, relay2 = False,
     relay3 = False, relay4 = False,
     relay_calls = [RelayOn 1],
     log_lines = [Started 6 (29 / 5)],
     console = [Started 6 (29 / 5), StartTemp (TNum (185 / 8))],
     volts = 6, readCount = 0, Vave = 0, Aave = 0, Tave = 0,
     averageCurrent = 0, totalReadings = 0, temperature = TNum (185 / 8),
     startTime = 2000000000\<rparr>"

definition st_after_first :: state where
  "st_after_first =
   \<lparr>nV = 2, nA = 1, nT = 2, nS = 1, relay1 = True, relay2 = False,
     relay3 = False, relay4 = False,
     relay_calls = [RelayOn 1],
     log_lines = [Started 6 (29 / 5)],
     console = [Started 6 (29 / 5), StartTemp (TNum (185 / 8))],
     volts = 6, readCount = 1, Vave = 6, Aave = 800, Tave = 185 / 8,
     averageCurrent = 0, totalReadings = 0, temperature = TNum (185 / 8),
     startTime = 2000000000\<rparr>"

definition st_before_last :: state where
  "st_before_last =
   \<lparr>nV = 16, nA = 15, nT = 16, nS = 15, relay1 = True, relay2 = False,
     relay3 = False, relay4 = False,
     relay_calls = [RelayOn 1],
     log_lines = [Started 6 (29 / 5), Reading (119 / 20) 800 (185 / 8)],
     console = [Started 6 (29 / 5), StartTemp (TNum (185 / 8)),
        Progress 32 (119 / 20) 800 (185 / 8)],
     volts = 119 / 20, readCount = 7, Vave = 399 / 10, Aave = 5600, Tave = 1295 / 8,
     averageCurrent = 800, totalReadings = 1, temperature = TNum (185 / 8),
     startTime = 2000000000\<rparr>"

definition st_loop_end :: state where
  "st_loop_end =
   \<lparr>nV = 17, nA = 16, nT = 17, nS = 16, relay1 = True, relay2 = False,
     relay3 = False, relay4 = False,
     relay_calls = [RelayOn 1],
     log_lines = [Started 6 (29 / 5), Reading (119 / 20) 800 (185 / 8),
        Reading (57 / 10) 800 (185 / 8)],
     console = [Started 6 (29 / 5), StartTemp (TNum (185 / 8)),
        Progress 32 (119 / 20) 800 (185 / 8),
        Progress 64 (57 / 10) 800 (185 / 8)],
     volts = 57 / 10, readCount = 0, Vave = 0, Aave = 0, Tave = 0,
     averageCurrent = 1600, totalReadings = 2, temperature = TNum (185 / 8),
     startTime = 2000000000\<rparr>"

definition st_sensor_fault :: state where
  "st_sensor_fault =
   \<lparr>nV = 4, nA = 2, nT = 3, nS = 3, relay1 = False, relay2 = False,
     relay3 = False, relay4 = False,
     relay_calls = [RelayOn 1, RelayOff 1, RelayOff 2, RelayOff 3, RelayOff 4],
     log_lines = [Started 6 (29 / 5)],
     console = [Started 6 (29 / 5), StartTemp (TNum (185 / 8))],
     volts = 6, readCount = 2, Vave = 12, Aave = 1600, Tave = 185 / 4,
     averageCurrent = 0, totalReadings = 0, temperature = TNum (185 / 8),
     startTime = 2000000000\<rparr>"

definition st_interrupt :: state where
  "st_interrupt =
   \<lparr>nV = 3, nA = 2, nT = 0, nS = 3, relay1 = False, relay2 = False,
     relay3 = False, relay4 = False,
     relay_calls = [RelayOn 2, RelayOff 1, RelayOff 2, RelayOff 3, RelayOff 4],
     log_lines = [Started 3 (27 / 10), CellReading 3 800, CellReading 3 800],
     console = [Started 3 (27 / 10)],
     volts = 3, readCount = 0, Vave = 0, Aave = 0, Tave = 0,
     averageCurrent = 1600, totalReadings = 2, temperature = TNum 0,
     startTime = 0\<rparr>"

definition st_cell_started :: state where
  "st_cell_started =
   \<lparr>nV = 1, nA = 0, nT = 0, nS = 0, relay1 = False, relay2 = True,
     relay3 = False, relay4 = False,
     relay_calls = [RelayOn 2],
     log_lines = [Started 3 (27 / 10)],
     console = [Started 3 (27 / 10)],
     volts = 3, readCount = 0, Vave = 0, Aave = 0, Tave = 0,
     averageCurrent = 0, totalReadings = 0, temperature = TNum 0,
     startTime = 0\<rparr>"

definition st_cell_mid :: state where
  "st_cell_mid =
   \<lparr>nV = 2, nA = 1, nT = 0, nS = 1, relay1 = False, relay2 = True,
     relay3 = False, relay4 = False,
     relay_calls = [RelayOn 2],
     log_lines = [Started 3 (27 / 10), CellReading 3 800],
     console = [Started 3 (27 / 10)],
     volts = 3, readCount = 0, Vave = 0, Aave = 0, Tave = 0,
     averageCurrent = 800, totalReadings = 1, temperature = TNum 0,
     startTime = 0\<rparr>"

definition st_cell_loop_end :: state where
  "st_cell_loop_end =
   \<lparr>nV = 3, nA = 2, nT = 0, nS = 2, relay1 = False, relay2 = True,
     relay3 = False, relay4 = False,
     relay_calls = [RelayOn 2],
     log_lines = [Started 3 (27 / 10), CellReading 3 800, CellReading (13 / 5) 800],
     console = [Started 3 (27 / 10)],
     volts = 13 / 5, readCount = 0, Vave = 0, Aave = 0, Tave = 0,
     averageCurrent = 1600, totalReadings = 2, temperature = TNum 0,
     startTime = 0\<rparr>"

definition st_cell_example :: state where
  "st_cell_example =
   \<lparr>nV = 3, nA = 2, nT = 0, nS = 2, relay1 = False, relay2 = False,
     relay3 = False, relay4 = False,
     relay_calls = [RelayOn 2, RelayOff 1, RelayOff 2, RelayOff 3, RelayOff 4],
     log_lines = [Started 3 (27 / 10), CellReading 3 800, CellReading (13 / 5) 800,
        TotalTime (1 / 120), Capacity (20 / 3)],
     console = [Started 3 (27 / 10), RunEnded 800 (1 / 120) (20 / 3)],
     volts = 13 / 5, readCount = 0, Vave = 0, Aave = 0, Tave = 0,
     averageCurrent = 800, totalReadings = 2, temperature = TNum 0,
     startTime = 0\<rparr>"

definition st_flat_2S :: state where
  "st_flat_2S =
   \<lparr>nV = 1, nA = 0, nT = 1, nS = 0, relay1 = False, relay2 = False,
     relay3 = False, relay4 = False,
     relay_calls = [RelayOn 1, RelayOff 1, RelayOff 2, RelayOff 3, RelayOff 4],
     log_lines = [Started (5 / 2) (29 / 5), TotalTime 0, Capacity 0],
     console = [Started (5 / 2) (29 / 5), StartTemp (TNum (185 / 8)),
        RunEnded 0 0 0],
     volts = 5 / 2, readCount = 0, Vave = 0, Aave = 0, Tave = 0,
     averageCurrent = 0, totalReadings = 0, temperature = TNum (185 / 8),
     startTime = 2000000000\<rparr>"

definition st_flat_cell :: state where
  "st_flat_cell =
   \<lparr>nV = 1, nA = 0, nT = 0, nS = 0, relay1 = False, relay2 = False,
     relay3 = False, relay4 = False,
     relay_calls = [RelayOn 2, RelayOff 1, RelayOff 2, RelayOff 3, RelayOff 4],
     log_lines = [Started (5 / 2) (27 / 10), TotalTime 0, Capacity 0],
     console = [Started (5 / 2) (27 / 10), RunEnded 0 0 0],
     volts = 5 / 2, readCount = 0, Vave = 0, Aave = 0, Tave = 0,
     averageCurrent = 0, totalReadings = 0, temperature = TNum 0,
     startTime = 0\<rparr>"

definition st_no_marker :: state where
  "st_no_marker =
   \<lparr>nV = 2, nA = 1, nT = 2, nS = 1, relay1 = False, relay2 = False,
     relay3 = False, relay4 = False,
     relay_calls = [RelayOn 1, RelayOff 1, RelayOff 2, RelayOff 3, RelayOff 4],
     log_lines = [Started 6 (29 / 5)],
     console = [Started 6 (29 / 5), StartTemp TNone],
     volts = 6, readCount = 0, Vave = 6, Aave = 800, Tave = 0,
     averageCurrent = 0, totalReadings = 0, temperature = TNone,
     startTime = 2000000000\<rparr>"

definition st_killed :: state where
  "st_killed =
   \<lparr>nV = 3, nA = 2, nT = 3, nS = 3, relay1 = True, relay2 = False,
     relay3 = False, relay4 = False,
     relay_calls = [RelayOn 1],
     log_lines = [Started 6 (29 / 5)],
     console = [Started 6 (29 / 5), StartTemp (TNum (185 / 8))],
     volts = 6, readCount = 2, Vave = 119 / 10, Aave = 1600, Tave = 185 / 4,
     averageCurrent = 0, totalReadings = 0, temperature = TNum (185 / 8),
     startTime = 2000000000\<rparr>"

definition st_cell_killed :: state where
  "st_cell_killed =
   \<lparr>nV = 3, nA = 2, nT = 0, nS = 3, relay1 = False, relay2 = True,
     relay3 = False, relay4 = False,
     relay_calls = [RelayOn 2],
     log_lines = [Started 6 (27 / 10), CellReading 6 800, CellReading (59 / 10) 800],
     console = [Started 6 (27 / 10)],
     volts = 59 / 10, readCount = 0, Vave = 0, Aave = 0, Tave = 0,
     averageCurrent = 1600, totalReadings = 2, temperature = TNum 0,
     startTime = 0\<rparr>"

definition st_interrupt_first :: state where
  "st_interrupt_first =
   \<lparr>nV = 1, nA = 0, nT = 1, nS = 1, relay1 = False, relay2 = False,
     relay3 = False, relay4 = False,
     relay_calls = [RelayOn 1, RelayOff 1, RelayOff 2, RelayOff 3, RelayOff 4],
     log_lines = [Started 6 (29 / 5)],
     console = [Started 6 (29 / 5), StartTemp (TNum (185 / 8))],
     volts = 6, readCount = 0, Vave = 0, Aave = 0, Tave = 0,
     averageCurrent = 0, totalReadings = 0, temperature = TNum (185 / 8),
     startTime = 2000000000\<rparr>"

definition st_cell_interrupt_first :: state where
  "st_cell_interrupt_first =
   \<lparr>nV = 1, nA = 0, nT = 0, nS = 1, relay1 = False, relay2 = False,
     relay3 = False, relay4 = False,
     relay_calls = [RelayOn 2, RelayOff 1, RelayOff 2, RelayOff 3, RelayOff 4],
     log_lines = [Started 6 (27 / 10)],
     console = [Started 6 (27 / 10)],
     volts = 6, readCount = 0, Vave = 0, Aave = 0, Tave = 0,
     averageCurrent = 0, totalReadings = 0, temperature = TNum 0,
     startTime = 0\<rparr>"

section \<open>Properties\<close>

subsection \<open>What \<open>read_temp\<close> leaves unchanged\<close>

lemma only_io_refl: "only_io s s"
  by (simp add: only_io_def)

lemma only_io_trans: "only_io s s1 \<Longrightarrow> only_io s1 s2 \<Longrightarrow> only_io s s2"
  unfolding only_io_def by (cases s, cases s1, cases s2) simp

lemma only_io_fields:
  assumes "only_io s s'"
  shows "nV s' = nV s" "nA s' = nA s" "relay1 s' = relay1 s" "relay2 s' = relay2 s"
    "relay3 s' = relay3 s" "relay4 s' = relay4 s" "log_lines s' = log_lines s" "volts s' = volts s"
    "readCount s' = readCount s" "Vave s' = Vave s" "Aave s' = Aave s" "Tave s' = Tave s"
    "averageCurrent s' = averageCurrent s" "totalReadings s' = totalReadings s"
    "temperature s' = temperature s" "startTime s' = startTime s"
    "relay_calls s' = relay_calls s"
    "summaries (console s') = summaries (console s)"
  using assms unfolding only_io_def by (cases s, cases s', simp)+

lemma only_io_sleep: "sleep env d s = (r, s') \<Longrightarrow> only_io s s'"
  by (auto simp: sleep_def only_io_def split: if_splits)

lemma only_io_raw: "read_temp_raw env s = (r, s') \<Longrightarrow> only_io s s'"
  by (auto simp: read_temp_raw_def only_io_def)

lemma only_io_print: "only_io s s' \<Longrightarrow> only_io s (s'\<lparr>console := console s' @ [RawLines ls]\<rparr>)"
  unfolding only_io_def summaries_def by (cases s, cases s') simp

lemma retry_loop_only_io:
  assumes "retry_loop env lines s = Some y"
  shows "only_io s (snd (snd y))"
proof (rule retry_loop.raw_induct[where P = "\<lambda>env lines s y. only_io s (snd (snd y))", OF _ assms],
    goal_cases)
  case (1 f env lines s y)
  show ?case
  proof (cases "py_index lines 0")
    case (Inl e)
    with 1(2) show ?thesis by (auto simp: only_io_refl)
  next
    case (Inr l0)
    show ?thesis
    proof (cases "last3 (strip l0) \<noteq> ''YES''")
      case False
      with Inr 1(2) show ?thesis by (auto simp: only_io_refl)
    next
      case True
      obtain r1 s1 where sl: "sleep env 0.2 s = (r1, s1)" by (cases "sleep env 0.2 s")
      obtain r2 s2 where rd: "read_temp_raw env s1 = (r2, s2)" by (cases "read_temp_raw env s1")
      have a: "only_io s s1" using sl by (rule only_io_sleep)
      have b: "only_io s s2" using a only_io_raw[OF rd] by (rule only_io_trans)
      show ?thesis using 1(2) Inr True sl rd a b
        by (auto split: option.splits sum.splits dest!: 1(1) intro: only_io_trans)
    qed
  qed
qed

lemma read_temp_only_io:
  assumes "read_temp env s = Some (r, s')"
  shows "only_io s s'"
proof -
  obtain r1 s1 where rd: "read_temp_raw env s = (r1, s1)" by (cases "read_temp_raw env s")
  have a: "only_io s s1" using rd by (rule only_io_raw)
  show ?thesis
  proof (cases r1)
    case (Inl e)
    with assms rd a show ?thesis by (simp add: read_temp_def)
  next
    case (Inr lines)
    with assms rd obtain y where y: "retry_loop env lines s1 = Some y"
      by (auto simp: read_temp_def split: option.splits)
    have b: "only_io s (snd (snd y))" using a retry_loop_only_io[OF y] by (rule only_io_trans)
    obtain e ls s2 where yy: "y = (e, ls, s2)" by (cases y)
    show ?thesis using assms rd Inr y yy b
      by (auto simp: read_temp_def split: option.splits sum.splits stop.splits intro: only_io_print)
  qed
qed

subsection \<open>One pass through the loop body\<close>

lemma summaries_append [simp]: "summaries (xs @ ys) = summaries xs @ summaries ys"
  by (simp add: summaries_def)

lemma summaries_simps [simp]:
  "summaries [] = []"
  "summaries (Reading v c t # ms) = summaries ms"
  "summaries (Progress e v c t # ms) = summaries ms"
  "summaries (CellReading v c # ms) = summaries ms"
  "summaries (Started v w # ms) = summaries ms"
  "summaries (StartTemp x # ms) = summaries ms"
  "summaries (RawLines ls # ms) = summaries ms"
  by (simp_all add: summaries_def)

lemma loop_body_cases:
  assumes "loop_body cfg env s = Some (r, s')"
  obtains
    (fault) e where "r = Some e" "log_lines s' = log_lines s" "averageCurrent s' = averageCurrent s"
      "totalReadings s' = totalReadings s" "summaries (console s') = summaries (console s)"
      "startTime s' = startTime s"
  | (accum) Vdat Adat Tdat where "r = None" "readingsToAverage cfg \<noteq> 0"
      "voltage_at env (nV s) = Inr Vdat" "current_at env (nA s) = Inr Adat"
      "\<not> readingsToAverage cfg \<le> readCount s + 1"
      "nV s' = nV s + 1" "nA s' = nA s + 1" "volts s' = volts s" "log_lines s' = log_lines s"
      "readCount s' = readCount s + 1" "Vave s' = Vave s + Vdat" "Aave s' = Aave s + Adat"
      "Tave s' = Tave s + Tdat" "averageCurrent s' = averageCurrent s"
      "totalReadings s' = totalReadings s" "summaries (console s') = summaries (console s)"
      "startTime s' = startTime s"
  | (emit) Vdat Adat Tdat where "r = None" "readingsToAverage cfg \<noteq> 0"
      "voltage_at env (nV s) = Inr Vdat" "current_at env (nA s) = Inr Adat"
      "readingsToAverage cfg \<le> readCount s + 1"
      "nV s' = nV s + 1" "nA s' = nA s + 1"
      "volts s' = (Vave s + Vdat) / real (readingsToAverage cfg)"
      "log_lines s' = log_lines s @ [Reading ((Vave s + Vdat) / real (readingsToAverage cfg))
                                  ((Aave s + Adat) / real (readingsToAverage cfg))
                                  ((Tave s + Tdat) / real (readingsToAverage cfg))]"
      "readCount s' = 0" "Vave s' = 0" "Aave s' = 0" "Tave s' = 0"
      "averageCurrent s' = averageCurrent s + (Aave s + Adat) / real (readingsToAverage cfg)"
      "totalReadings s' = totalReadings s + 1"
      "summaries (console s') = summaries (console s)"
      "startTime s' = startTime s"
proof (cases "readingsToAverage cfg = 0")
  case True
  with assms have "r = Some (Raised ZeroDivisionError)" "s' = s"
    by (auto simp: loop_body_def py_div_def)
  then show ?thesis using fault by simp
next
  case n0: False
  obtain r1 s1 where sl: "sleep env (logInterval cfg / real (readingsToAverage cfg)) s = (r1, s1)"
    by (cases "sleep env (logInterval cfg / real (readingsToAverage cfg)) s")
  have s1: "r1 = None \<Longrightarrow> s1 = s\<lparr>nS := nS s + 1\<rparr>" and s1f: "log_lines s1 = log_lines s"
    "averageCurrent s1 = averageCurrent s" "totalReadings s1 = totalReadings s" "console s1 = console s"
    "startTime s1 = startTime s"
    using sl by (auto simp: sleep_def split: if_splits)
  show ?thesis
  proof (cases r1)
    case (Some e)
    with assms n0 sl have "r = Some e" "s' = s1" by (auto simp: loop_body_def py_div_def)
    then show ?thesis using fault s1f by simp
  next
    case None
    note s1 = s1[OF None]
    show ?thesis
    proof (cases "voltage_at env (nV s)")
      case (Inl e)
      with assms n0 sl None s1 have "r = Some (Raised e)" "s' = s1\<lparr>nV := nV s1 + 1\<rparr>"
        by (auto simp: loop_body_def py_div_def read_voltage_def)
      then show ?thesis using fault s1 by simp
    next
      case V: (Inr Vdat)
      show ?thesis
      proof (cases "current_at env (nA s)")
        case (Inl e)
        with assms n0 sl None s1 V have "r = Some (Raised e)" "s' = s\<lparr>nS := nS s + 1, nV := nV s + 1, nA := nA s + 1\<rparr>"
          by (auto simp: loop_body_def py_div_def read_voltage_def read_current_def)
        then show ?thesis using fault by simp
      next
        case A: (Inr Adat)
        define s3 where "s3 = s\<lparr>nS := nS s + 1, nV := nV s + 1, nA := nA s + 1\<rparr>"
        from assms obtain rt s4 where rt: "read_temp env s3 = Some (rt, s4)"
          using n0 sl None s1 V A
          by (auto simp: loop_body_def py_div_def read_voltage_def read_current_def s3_def
              split: option.splits)
        note f4 = only_io_fields[OF read_temp_only_io[OF rt]]
        have rest: "(case rt of Inl e \<Rightarrow> Some (Some e, s4)
              | Inr Tdat \<Rightarrow>
                  (case py_add (Tave s4) Tdat of
                     Inl e \<Rightarrow> Some (Some (Raised e), s4\<lparr>Vave := Vave s4 + Vdat, Aave := Aave s4 + Adat\<rparr>)
                   | Inr T \<Rightarrow>
                       (let s5 = s4\<lparr>Vave := Vave s4 + Vdat, Aave := Aave s4 + Adat,
                                    Tave := T, readCount := readCount s4 + 1\<rparr>
                        in if readCount s5 \<ge> readingsToAverage cfg
                           then Some (emit_record cfg env s5)
                           else Some (None, s5)))) = Some (r, s')"
          using assms n0 sl None s1 V A rt
          by (simp add: loop_body_def py_div_def read_voltage_def read_current_def s3_def)
        show ?thesis
        proof (cases rt)
          case (Inl e)
          with rest have "r = Some e" "s' = s4" by auto
          then show ?thesis using fault f4 by (simp add: s3_def)
        next
          case T: (Inr t)
          show ?thesis
          proof (cases t)
            case TNone
            with rest T have "r = Some (Raised TypeError)" "s' = s4\<lparr>Vave := Vave s4 + Vdat, Aave := Aave s4 + Adat\<rparr>"
              by (auto simp: py_add_def)
            then show ?thesis using fault f4 by (simp add: s3_def)
          next
            case (TNum Tdat)
            show ?thesis
            proof (cases "readingsToAverage cfg \<le> readCount s + 1")
              case False
              with rest T TNum f4 have "r = None"
                "s' = s4\<lparr>Vave := Vave s4 + Vdat, Aave := Aave s4 + Adat,
                                    Tave := Tave s4 + Tdat, readCount := readCount s4 + 1\<rparr>"
                by (auto simp: py_add_def Let_def s3_def)
              then show ?thesis using accum[of Vdat Adat Tdat] f4 n0 V A False by (simp add: s3_def)
            next
              case True
              with rest T TNum f4 have "(r, s') = emit_record cfg env (s4\<lparr>Vave := Vave s4 + Vdat, Aave := Aave s4 + Adat,
                                    Tave := Tave s4 + Tdat, readCount := readCount s4 + 1\<rparr>)"
                by (auto simp: py_add_def Let_def s3_def)
              then have "r = None \<and> s' = s4\<lparr>Vave := Vave s4 + Vdat, Aave := Aave s4 + Adat,
                                    Tave := Tave s4 + Tdat, readCount := readCount s4 + 1\<rparr>\<lparr>volts := (Vave s4 + Vdat) / real (readingsToAverage cfg),
                       temperature := TNum ((Tave s4 + Tdat) / real (readingsToAverage cfg)),
                       readCount := 0, Vave := 0, Aave := 0, Tave := 0,
                       log_lines := log_lines s4 @ [Reading ((Vave s4 + Vdat) / real (readingsToAverage cfg)) ((Aave s4 + Adat) / real (readingsToAverage cfg)) ((Tave s4 + Tdat) / real (readingsToAverage cfg))],
                       console := console s4 @
                         [Progress (real_of_int (monotonic_ns env s4 - startTime s4) / 1000000000) ((Vave s4 + Vdat) / real (readingsToAverage cfg)) ((Aave s4 + Adat) / real (readingsToAverage cfg)) ((Tave s4 + Tdat) / real (readingsToAverage cfg))],
                       averageCurrent := averageCurrent s4 + (Aave s4 + Adat) / real (readingsToAverage cfg),
                       totalReadings := totalReadings s4 + 1\<rparr>"
                using n0 by (simp add: emit_record_def py_div_def monotonic_ns_def)
              then show ?thesis using emit[of Vdat Adat Tdat] f4 n0 V A True by (simp add: s3_def)
            qed
          qed
        qed
      qed
    qed
  qed
qed

subsection \<open>Invariants of the averaging loop\<close>

lemma records_append [simp]: "records (xs @ ys) = records xs @ records ys"
  by (simp add: records_def List.map_filter_def)

lemma records_simps [simp]:
  "records [] = []"
  "records (Reading v c t # ms) = (v, c) # records ms"
  "records (CellReading v c # ms) = (v, c) # records ms"
  "records (Progress e v c t # ms) = records ms"
  "records (Started v w # ms) = records ms"
  "records (StartTemp x # ms) = records ms"
  "records (RawLines ls # ms) = records ms"
  "records (TotalTime h # ms) = records ms"
  "records (Capacity h # ms) = records ms"
  "records (RunEnded a h k # ms) = records ms"
  by (simp_all add: records_def List.map_filter_def)

lemma length_window_of: "window_of g b n = Some xs \<Longrightarrow> length xs = n"
  by (induction n arbitrary: xs) (auto split: option.splits sum.splits)

lemma main_loop_step:
  assumes "(if endVoltage cfg < volts s
      then case loop_body cfg env s of None \<Rightarrow> None
           | Some (None, s') \<Rightarrow> f cfg env s'
           | Some (Some e, s') \<Rightarrow> Some (Some e, s')
      else Some (None, s)) = Some y"
  obtains (stop) "\<not> endVoltage cfg < volts s" "y = (None, s)"
  | (fault) e s' where "endVoltage cfg < volts s" "loop_body cfg env s = Some (Some e, s')" "y = (Some e, s')"
  | (continue) s' where "endVoltage cfg < volts s" "loop_body cfg env s = Some (None, s')" "f cfg env s' = Some y"
  using assms by (auto split: if_splits option.splits)

lemma is_window_mean_shift:
  "is_window_mean cfg env (bV + readingsToAverage cfg) (bA + readingsToAverage cfg) j r =
   is_window_mean cfg env bV bA (Suc j) r"
proof -
  have "bV + readingsToAverage cfg + j * readingsToAverage cfg = bV + Suc j * readingsToAverage cfg"
    "bA + readingsToAverage cfg + j * readingsToAverage cfg = bA + Suc j * readingsToAverage cfg"
    by simp_all
  then show ?thesis by (simp only: is_window_mean_def)
qed

lemma main_loop_records:
  assumes "main_loop cfg env s = Some y"
  shows "\<forall>bV bA vs cs. (readingsToAverage cfg = 0 \<or> readCount s < readingsToAverage cfg) \<and>
           nV s = bV + readCount s \<and> nA s = bA + readCount s \<and>
           window_of (voltage_at env) bV (readCount s) = Some vs \<and>
           window_of (current_at env) bA (readCount s) = Some cs \<and>
           Vave s = sum_list vs \<and> Aave s = sum_list cs \<longrightarrow>
           (\<exists>rs. records (log_lines (snd y)) = records (log_lines s) @ rs \<and>
                 (\<forall>j<length rs. is_window_mean cfg env bV bA j (rs ! j)))"
proof (rule main_loop.raw_induct[where P = "\<lambda>cfg env s y. \<forall>bV bA vs cs.
           (readingsToAverage cfg = 0 \<or> readCount s < readingsToAverage cfg) \<and>
           nV s = bV + readCount s \<and> nA s = bA + readCount s \<and>
           window_of (voltage_at env) bV (readCount s) = Some vs \<and>
           window_of (current_at env) bA (readCount s) = Some cs \<and>
           Vave s = sum_list vs \<and> Aave s = sum_list cs \<longrightarrow>
           (\<exists>rs. records (log_lines (snd y)) = records (log_lines s) @ rs \<and>
                 (\<forall>j<length rs. is_window_mean cfg env bV bA j (rs ! j)))", OF _ assms], goal_cases)
  case (1 f cfg env s y)
  let ?n = "readingsToAverage cfg"
  show ?case
  proof (intro allI impI, elim conjE)
    fix bV bA vs cs
    assume n: "?n = 0 \<or> readCount s < ?n"
      and bV: "nV s = bV + readCount s" and bA: "nA s = bA + readCount s"
      and wV: "window_of (voltage_at env) bV (readCount s) = Some vs"
      and wA: "window_of (current_at env) bA (readCount s) = Some cs"
      and V: "Vave s = sum_list vs" and A: "Aave s = sum_list cs"
    from 1(2) show "\<exists>rs. records (log_lines (snd y)) = records (log_lines s) @ rs \<and>
                 (\<forall>j<length rs. is_window_mean cfg env bV bA j (rs ! j))"
    proof (cases rule: main_loop_step)
      case stop
      then show ?thesis by (intro exI[of _ "[]"]) simp
    next
      case (fault e s')
      from fault(2) have "log_lines s' = log_lines s" by (cases rule: loop_body_cases) auto
      with fault(3) show ?thesis by (intro exI[of _ "[]"]) simp
    next
      case (continue s')
      from continue(2) show ?thesis
      proof (cases rule: loop_body_cases)
        case (fault e)
        then show ?thesis by simp
      next
        case (accum Vdat Adat Tdat)
        have w': "window_of (voltage_at env) bV (Suc (readCount s)) = Some (vs @ [Vdat])"
          "window_of (current_at env) bA (Suc (readCount s)) = Some (cs @ [Adat])"
          using accum(3,4) bV bA wV wA by simp_all
        have "\<exists>rs. records (log_lines (snd y)) = records (log_lines s') @ rs \<and>
                 (\<forall>j<length rs. is_window_mean cfg env bV bA j (rs ! j))"
          using 1(1)[OF continue(3), rule_format, of bV bA "vs @ [Vdat]" "cs @ [Adat]"]
            accum n bV bA V A w' by simp
        then show ?thesis using accum by simp
      next
        case (emit Vdat Adat Tdat)
        have c: "Suc (readCount s) = ?n" using emit(2,5) n by simp
        have w': "window_of (voltage_at env) bV ?n = Some (vs @ [Vdat])"
          "window_of (current_at env) bA ?n = Some (cs @ [Adat])"
          unfolding c[symmetric] using emit(3,4) bV bA wV wA by simp_all
        have len: "length vs = readCount s" "length cs = readCount s"
          using length_window_of[OF wV] length_window_of[OF wA] by simp_all
        have r0: "is_window_mean cfg env bV bA 0
                    ((Vave s + Vdat) / real ?n, (Aave s + Adat) / real ?n)"
          using w' V A len c by (simp add: is_window_mean_def mean_def)
        obtain rs where rs: "records (log_lines (snd y)) = records (log_lines s') @ rs"
          "\<forall>j<length rs. is_window_mean cfg env (bV + ?n) (bA + ?n) j (rs ! j)"
          using 1(1)[OF continue(3), rule_format, of "bV + ?n" "bA + ?n" "[]" "[]"] emit bV bA c
          by auto
        let ?r = "((Vave s + Vdat) / real ?n, (Aave s + Adat) / real ?n)"
        have "records (log_lines (snd y)) = records (log_lines s) @ (?r # rs)"
          using rs(1) emit(9) by simp
        moreover have "\<forall>j<length (?r # rs). is_window_mean cfg env bV bA j ((?r # rs) ! j)"
        proof (intro allI impI)
          fix j assume "j < length (?r # rs)"
          then show "is_window_mean cfg env bV bA j ((?r # rs) ! j)"
            using r0 rs(2) by (cases j) (simp_all add: is_window_mean_shift)
        qed
        ultimately show ?thesis by blast
      qed
    qed
  qed
qed

lemma main_loop_tally:
  assumes "main_loop cfg env s = Some y"
  shows "summaries (log_lines (snd y)) = summaries (log_lines s) \<and>
         summaries (console (snd y)) = summaries (console s) \<and>
         startTime (snd y) = startTime s \<and>
         (averageCurrent s = sum_list (map snd (records (log_lines s))) \<and>
          totalReadings s = length (records (log_lines s)) \<longrightarrow>
          averageCurrent (snd y) = sum_list (map snd (records (log_lines (snd y)))) \<and>
          totalReadings (snd y) = length (records (log_lines (snd y))))"
proof (rule main_loop.raw_induct[where P = "\<lambda>cfg env s y.
         summaries (log_lines (snd y)) = summaries (log_lines s) \<and>
         summaries (console (snd y)) = summaries (console s) \<and>
         startTime (snd y) = startTime s \<and>
         (averageCurrent s = sum_list (map snd (records (log_lines s))) \<and>
          totalReadings s = length (records (log_lines s)) \<longrightarrow>
          averageCurrent (snd y) = sum_list (map snd (records (log_lines (snd y)))) \<and>
          totalReadings (snd y) = length (records (log_lines (snd y))))", OF _ assms], goal_cases)
  case (1 f cfg env s y)
  from 1(2) show ?case
  proof (cases rule: main_loop_step)
    case stop
    then show ?thesis by simp
  next
    case (fault e s')
    from fault(2) show ?thesis using fault(3) by (cases rule: loop_body_cases) auto
  next
    case (continue s')
    note IH = 1(1)[OF continue(3)]
    from continue(2) show ?thesis
    proof (cases rule: loop_body_cases)
      case (fault e)
      then show ?thesis by simp
    next
      case (accum Vdat Adat Tdat)
      then show ?thesis using IH by simp
    next
      case (emit Vdat Adat Tdat)
      then show ?thesis using IH by simp
    qed
  qed
qed

lemma main_loop_trace:
  assumes "main_loop cfg env s = Some (None, s')"
  shows "volts s' \<le> endVoltage cfg \<and>
         (\<exists>vs. map fst (records (log_lines s')) = map fst (records (log_lines s)) @ vs \<and>
               (\<forall>v\<in>set (butlast vs). endVoltage cfg < v) \<and>
               (if vs = [] then s' = s \<and> volts s \<le> endVoltage cfg
                else last vs \<le> endVoltage cfg \<and> endVoltage cfg < volts s))"
proof -
  have "fst (None :: stop option, s') = None \<longrightarrow> volts (snd (None :: stop option, s')) \<le> endVoltage cfg \<and>
         (\<exists>vs. map fst (records (log_lines (snd (None :: stop option, s')))) = map fst (records (log_lines s)) @ vs \<and>
               (\<forall>v\<in>set (butlast vs). endVoltage cfg < v) \<and>
               (if vs = [] then snd (None :: stop option, s') = s \<and> volts s \<le> endVoltage cfg
                else last vs \<le> endVoltage cfg \<and> endVoltage cfg < volts s))"
  proof (rule main_loop.raw_induct[where P = "\<lambda>cfg env s y. fst y = None \<longrightarrow>
         volts (snd y) \<le> endVoltage cfg \<and>
         (\<exists>vs. map fst (records (log_lines (snd y))) = map fst (records (log_lines s)) @ vs \<and>
               (\<forall>v\<in>set (butlast vs). endVoltage cfg < v) \<and>
               (if vs = [] then snd y = s \<and> volts s \<le> endVoltage cfg
                else last vs \<le> endVoltage cfg \<and> endVoltage cfg < volts s))", OF _ assms], goal_cases)
    case (1 f cfg env s y)
    from 1(2) show ?case
    proof (cases rule: main_loop_step)
      case stop
      then show ?thesis by (auto intro!: exI[of _ "[]"])
    next
      case (fault e s')
      then show ?thesis by simp
    next
      case (continue s1)
      show ?thesis
      proof
        assume y: "fst y = None"
        from 1(1)[OF continue(3)] y obtain vs1 where le: "volts (snd y) \<le> endVoltage cfg"
          and vs1: "map fst (records (log_lines (snd y))) = map fst (records (log_lines s1)) @ vs1"
          "\<forall>v\<in>set (butlast vs1). endVoltage cfg < v"
          "if vs1 = [] then snd y = s1 \<and> volts s1 \<le> endVoltage cfg
                else last vs1 \<le> endVoltage cfg \<and> endVoltage cfg < volts s1"
          by blast
        from continue(2) have "\<exists>vs. map fst (records (log_lines (snd y))) = map fst (records (log_lines s)) @ vs \<and>
               (\<forall>v\<in>set (butlast vs). endVoltage cfg < v) \<and>
               (if vs = [] then snd y = s \<and> volts s \<le> endVoltage cfg
                else last vs \<le> endVoltage cfg \<and> endVoltage cfg < volts s)"
        proof (cases rule: loop_body_cases)
          case (fault e)
          then show ?thesis by simp
        next
          case (accum Vdat Adat Tdat)
          show ?thesis
            using vs1 accum(8,9) continue(1) by (intro exI[of _ vs1]) (auto split: if_splits)
        next
          case (emit Vdat Adat Tdat)
          show ?thesis
            using vs1 emit(8,9) continue(1)
            by (intro exI[of _ "volts s1 # vs1"]) (auto split: if_splits)
        qed
        with le show "volts (snd y) \<le> endVoltage cfg \<and>
         (\<exists>vs. map fst (records (log_lines (snd y))) = map fst (records (log_lines s)) @ vs \<and>
               (\<forall>v\<in>set (butlast vs). endVoltage cfg < v) \<and>
               (if vs = [] then snd y = s \<and> volts s \<le> endVoltage cfg
                else last vs \<le> endVoltage cfg \<and> endVoltage cfg < volts s))" by blast
      qed
    qed
  qed
  then show ?thesis unfolding fst_conv snd_conv by blast
qed

lemma main_loop_boundary:
  assumes "main_loop cfg env s = Some (None, s')"
    and "readingsToAverage cfg = 0 \<or> readCount s < readingsToAverage cfg"
    and "endVoltage cfg < volts s \<or> (readCount s = 0 \<and> Vave s = 0 \<and> Aave s = 0 \<and> Tave s = 0)"
  shows "readCount s' = 0 \<and> Vave s' = 0 \<and> Aave s' = 0 \<and> Tave s' = 0 \<and>
         (\<exists>k. nA s' + readCount s = nA s + k * readingsToAverage cfg) \<and>
         nV s' + nA s = nV s + nA s'"
proof -
  have "fst (None :: stop option, s') = None \<and> (readingsToAverage cfg = 0 \<or> readCount s < readingsToAverage cfg) \<and>
      (endVoltage cfg < volts s \<or> (readCount s = 0 \<and> Vave s = 0 \<and> Aave s = 0 \<and> Tave s = 0)) \<longrightarrow>
      readCount (snd (None :: stop option, s')) = 0 \<and> Vave (snd (None :: stop option, s')) = 0 \<and>
      Aave (snd (None :: stop option, s')) = 0 \<and> Tave (snd (None :: stop option, s')) = 0 \<and>
      (\<exists>k. nA (snd (None :: stop option, s')) + readCount s = nA s + k * readingsToAverage cfg) \<and>
      nV (snd (None :: stop option, s')) + nA s = nV s + nA (snd (None :: stop option, s'))"
  proof (rule main_loop.raw_induct[where P = "\<lambda>cfg env s y.
      fst y = None \<and> (readingsToAverage cfg = 0 \<or> readCount s < readingsToAverage cfg) \<and>
      (endVoltage cfg < volts s \<or> (readCount s = 0 \<and> Vave s = 0 \<and> Aave s = 0 \<and> Tave s = 0)) \<longrightarrow>
      readCount (snd y) = 0 \<and> Vave (snd y) = 0 \<and> Aave (snd y) = 0 \<and> Tave (snd y) = 0 \<and>
      (\<exists>k. nA (snd y) + readCount s = nA s + k * readingsToAverage cfg) \<and>
      nV (snd y) + nA s = nV s + nA (snd y)", OF _ assms(1)], goal_cases)
    case (1 f cfg env s y)
    from 1(2) show ?case
    proof (cases rule: main_loop_step)
      case stop
      then show ?thesis by auto
    next
      case (fault e s')
      then show ?thesis by simp
    next
      case (continue s1)
      note IH = 1(1)[OF continue(3)]
      from continue(2) show ?thesis
      proof (cases rule: loop_body_cases)
        case (fault e)
        then show ?thesis by simp
      next
        case (accum Vdat Adat Tdat)
        show ?thesis
        proof (intro impI, elim conjE)
          assume a: "fst y = None" "readingsToAverage cfg = 0 \<or> readCount s < readingsToAverage cfg"
          have pre: "readCount s1 < readingsToAverage cfg" "endVoltage cfg < volts s1"
            using accum continue(1) by simp_all
          from IH a(1) pre obtain k where r: "readCount (snd y) = 0" "Vave (snd y) = 0" "Aave (snd y) = 0"
            "Tave (snd y) = 0" "nA (snd y) + readCount s1 = nA s1 + k * readingsToAverage cfg"
            "nV (snd y) + nA s1 = nV s1 + nA (snd y)" by blast
          have "nA (snd y) + readCount s = nA s + k * readingsToAverage cfg"
            using r(5) accum by simp
          moreover have "nV (snd y) + nA s = nV s + nA (snd y)" using r(6) accum by simp
          ultimately show "readCount (snd y) = 0 \<and> Vave (snd y) = 0 \<and> Aave (snd y) = 0 \<and> Tave (snd y) = 0 \<and>
            (\<exists>k. nA (snd y) + readCount s = nA s + k * readingsToAverage cfg) \<and>
            nV (snd y) + nA s = nV s + nA (snd y)" using r by blast
        qed
      next
        case (emit Vdat Adat Tdat)
        show ?thesis
        proof (intro impI, elim conjE)
          assume a: "fst y = None" "readingsToAverage cfg = 0 \<or> readCount s < readingsToAverage cfg"
          have c: "Suc (readCount s) = readingsToAverage cfg" using emit(2,5) a(2) by simp
          have pre: "readCount s1 < readingsToAverage cfg" "readCount s1 = 0 \<and> Vave s1 = 0 \<and> Aave s1 = 0 \<and> Tave s1 = 0"
            using emit by simp_all
          from IH a(1) pre obtain k where r: "readCount (snd y) = 0" "Vave (snd y) = 0" "Aave (snd y) = 0"
            "Tave (snd y) = 0" "nA (snd y) + readCount s1 = nA s1 + k * readingsToAverage cfg"
            "nV (snd y) + nA s1 = nV s1 + nA (snd y)" by blast
          have "nA (snd y) + readCount s = nA s + Suc k * readingsToAverage cfg"
            using r(5) emit c by simp
          moreover have "nV (snd y) + nA s = nV s + nA (snd y)" using r(6) emit by simp
          ultimately show "readCount (snd y) = 0 \<and> Vave (snd y) = 0 \<and> Aave (snd y) = 0 \<and> Tave (snd y) = 0 \<and>
            (\<exists>k. nA (snd y) + readCount s = nA s + k * readingsToAverage cfg) \<and>
            nV (snd y) + nA s = nV s + nA (snd y)" using r by blast
        qed
      qed
    qed
  qed
  with assms(2,3) show ?thesis by simp
qed

subsection \<open>Start-up and the single-sample loop\<close>

lemma startup_cases:
  assumes "startup cfg env s = Some (r, s1)"
  obtains
    (fault) e where "r = Some e" "records (log_lines s1) = records (log_lines s)"
      "summaries (log_lines s1) = summaries (log_lines s)" "summaries (console s1) = summaries (console s)"
      "averageCurrent s1 = averageCurrent s" "totalReadings s1 = totalReadings s"
  | (ok) v where "r = None" "voltage_at env (nV s) = Inr v" "volts s1 = v"
      "nV s1 = nV s + 1" "nA s1 = nA s" "readCount s1 = 0" "Vave s1 = 0" "Aave s1 = 0" "Tave s1 = 0"
      "log_lines s1 = log_lines s @ [Started v (endVoltage cfg)]"
      "summaries (console s1) = summaries (console s)"
      "averageCurrent s1 = averageCurrent s" "totalReadings s1 = totalReadings s"
      "startTime s1 = monotonic_at env (nS s1 + nV s1 + nA s1 + nT s1)"
proof (cases "voltage_at env (nV s)")
  case (Inl e)
  with assms have "r = Some (Raised e)" "s1 = s\<lparr>nV := nV s + 1\<rparr>"
    by (auto simp: startup_def read_voltage_def)
  then show ?thesis using fault by simp
next
  case (Inr v)
  define s2 where "s2 = s\<lparr>nV := nV s + 1, volts := v,
                       log_lines := log_lines s @ [Started v (endVoltage cfg)],
                       console := console s @ [Started v (endVoltage cfg)]\<rparr>"
  from assms Inr obtain rt s3 where rt: "read_temp env s2 = Some (rt, s3)"
    by (auto simp: startup_def read_voltage_def Let_def s2_def split: option.splits)
  note f3 = only_io_fields[OF read_temp_only_io[OF rt]]
  have rest: "(case rt of Inl e \<Rightarrow> Some (Some e, s3)
              | Inr t \<Rightarrow>
                  Some (None, s3\<lparr>temperature := t,
                                 console := console s3 @ [StartTemp t],
                                 relay1 := True,
                                 relay_calls := relay_calls s3 @ [RelayOn 1],
                                 readCount := 0, Vave := 0, Aave := 0, Tave := 0,
                                 startTime := monotonic_ns env s3\<rparr>)) = Some (r, s1)"
    using assms Inr rt by (simp add: startup_def read_voltage_def Let_def s2_def)
  show ?thesis
  proof (cases rt)
    case (Inl e)
    with rest have "r = Some e" "s1 = s3" by auto
    then show ?thesis using fault f3 by (simp add: s2_def)
  next
    case (Inr t)
    with rest have "r = None" "s1 = s3\<lparr>temperature := t,
                                 console := console s3 @ [StartTemp t],
                                 relay1 := True,
                                 relay_calls := relay_calls s3 @ [RelayOn 1],
                                 readCount := 0, Vave := 0, Aave := 0, Tave := 0,
                                 startTime := monotonic_ns env s3\<rparr>" by auto
    then show ?thesis using ok[of v] f3 \<open>voltage_at env (nV s) = Inr v\<close>
      by (simp add: s2_def monotonic_ns_def)
  qed
qed

lemma cell_body_cases:
  assumes "cell_body cfg env s = (r, s')"
  obtains
    (fault) e where "r = Some e" "log_lines s' = log_lines s" "console s' = console s"
      "averageCurrent s' = averageCurrent s" "totalReadings s' = totalReadings s"
  | (emit) v c where "r = None" "voltage_at env (nV s) = Inr v" "current_at env (nA s) = Inr c"
      "volts s' = v" "log_lines s' = log_lines s @ [CellReading v c]" "console s' = console s"
      "averageCurrent s' = averageCurrent s + c" "totalReadings s' = totalReadings s + 1"
      "nV s' = nV s + 1" "nA s' = nA s + 1"
proof -
  obtain r1 s1 where sl: "sleep env (logInterval cfg) s = (r1, s1)"
    by (cases "sleep env (logInterval cfg) s")
  have s1: "r1 = None \<Longrightarrow> s1 = s\<lparr>nS := nS s + 1\<rparr>" and s1f: "log_lines s1 = log_lines s"
    "averageCurrent s1 = averageCurrent s" "totalReadings s1 = totalReadings s" "console s1 = console s"
    using sl by (auto simp: sleep_def split: if_splits)
  show ?thesis
  proof (cases r1)
    case (Some e)
    with assms sl have "r = Some e" "s' = s1" by (auto simp: cell_body_def)
    then show ?thesis using fault s1f by simp
  next
    case None
    note s1 = s1[OF None]
    show ?thesis
    proof (cases "voltage_at env (nV s)")
      case (Inl e)
      with assms sl None s1 have "r = Some (Raised e)" "s' = s1\<lparr>nV := nV s1 + 1\<rparr>"
        by (auto simp: cell_body_def read_voltage_def)
      then show ?thesis using fault s1 by simp
    next
      case V: (Inr v)
      show ?thesis
      proof (cases "current_at env (nA s)")
        case (Inl e)
        with assms sl None s1 V have "r = Some (Raised e)"
          "s' = s\<lparr>nS := nS s + 1, nV := nV s + 1, volts := v, nA := nA s + 1\<rparr>"
          by (auto simp: cell_body_def read_voltage_def read_current_def)
        then show ?thesis using fault by simp
      next
        case A: (Inr c)
        with assms sl None s1 V have "r = None"
          "s' = s\<lparr>nS := nS s + 1, nV := nV s + 1, volts := v, nA := nA s + 1,
                 log_lines := log_lines s @ [CellReading v c],
                 averageCurrent := averageCurrent s + c,
                 totalReadings := totalReadings s + 1\<rparr>"
          by (auto simp: cell_body_def read_voltage_def read_current_def)
        then show ?thesis using emit[of v c] V A by simp
      qed
    qed
  qed
qed

lemma cell_loop_step:
  assumes "(if endVoltage cfg < volts s
      then case cell_body cfg env s of
             (None, s') \<Rightarrow> f cfg env s'
           | (Some e, s') \<Rightarrow> Some (Some e, s')
      else Some (None, s)) = Some y"
  obtains (stop) "\<not> endVoltage cfg < volts s" "y = (None, s)"
  | (fault) e s' where "endVoltage cfg < volts s" "cell_body cfg env s = (Some e, s')" "y = (Some e, s')"
  | (continue) s' where "endVoltage cfg < volts s" "cell_body cfg env s = (None, s')" "f cfg env s' = Some y"
  using assms by (auto split: if_splits option.splits prod.splits)

lemma cell_loop_tally:
  assumes "cell_loop cfg env s = Some y"
  shows "summaries (log_lines (snd y)) = summaries (log_lines s) \<and>
         summaries (console (snd y)) = summaries (console s) \<and>
         (averageCurrent s = sum_list (map snd (records (log_lines s))) \<and>
          totalReadings s = length (records (log_lines s)) \<longrightarrow>
          averageCurrent (snd y) = sum_list (map snd (records (log_lines (snd y)))) \<and>
          totalReadings (snd y) = length (records (log_lines (snd y))))"
proof (rule cell_loop.raw_induct[where P = "\<lambda>cfg env s y.
         summaries (log_lines (snd y)) = summaries (log_lines s) \<and>
         summaries (console (snd y)) = summaries (console s) \<and>
         (averageCurrent s = sum_list (map snd (records (log_lines s))) \<and>
          totalReadings s = length (records (log_lines s)) \<longrightarrow>
          averageCurrent (snd y) = sum_list (map snd (records (log_lines (snd y)))) \<and>
          totalReadings (snd y) = length (records (log_lines (snd y))))", OF _ assms], goal_cases)
  case (1 f cfg env s y)
  from 1(2) show ?case
  proof (cases rule: cell_loop_step)
    case stop
    then show ?thesis by simp
  next
    case (fault e s')
    from fault(2) show ?thesis using fault(3) by (cases rule: cell_body_cases) auto
  next
    case (continue s')
    note IH = 1(1)[OF continue(3)]
    from continue(2) show ?thesis
    proof (cases rule: cell_body_cases)
      case (fault e)
      then show ?thesis by simp
    next
      case (emit v c)
      then show ?thesis using IH by simp
    qed
  qed
qed

lemma cell_loop_trace:
  assumes "cell_loop cfg env s = Some (None, s')"
  shows "volts s' \<le> endVoltage cfg \<and>
         (\<exists>vs. map fst (records (log_lines s')) = map fst (records (log_lines s)) @ vs \<and>
               (\<forall>v\<in>set (butlast vs). endVoltage cfg < v) \<and>
               (if vs = [] then s' = s \<and> volts s \<le> endVoltage cfg
                else last vs \<le> endVoltage cfg \<and> endVoltage cfg < volts s))"
proof -
  have "fst (None :: stop option, s') = None \<longrightarrow> volts (snd (None :: stop option, s')) \<le> endVoltage cfg \<and>
         (\<exists>vs. map fst (records (log_lines (snd (None :: stop option, s')))) = map fst (records (log_lines s)) @ vs \<and>
               (\<forall>v\<in>set (butlast vs). endVoltage cfg < v) \<and>
               (if vs = [] then snd (None :: stop option, s') = s \<and> volts s \<le> endVoltage cfg
                else last vs \<le> endVoltage cfg \<and> endVoltage cfg < volts s))"
  proof (rule cell_loop.raw_induct[where P = "\<lambda>cfg env s y. fst y = None \<longrightarrow>
         volts (snd y) \<le> endVoltage cfg \<and>
         (\<exists>vs. map fst (records (log_lines (snd y))) = map fst (records (log_lines s)) @ vs \<and>
               (\<forall>v\<in>set (butlast vs). endVoltage cfg < v) \<and>
               (if vs = [] then snd y = s \<and> volts s \<le> endVoltage cfg
                else last vs \<le> endVoltage cfg \<and> endVoltage cfg < volts s))", OF _ assms], goal_cases)
    case (1 f cfg env s y)
    from 1(2) show ?case
    proof (cases rule: cell_loop_step)
      case stop
      then show ?thesis by (auto intro!: exI[of _ "[]"])
    next
      case (fault e s')
      then show ?thesis by simp
    next
      case (continue s1)
      show ?thesis
      proof
        assume y: "fst y = None"
        from 1(1)[OF continue(3)] y obtain vs1 where le: "volts (snd y) \<le> endVoltage cfg"
          and vs1: "map fst (records (log_lines (snd y))) = map fst (records (log_lines s1)) @ vs1"
          "\<forall>v\<in>set (butlast vs1). endVoltage cfg < v"
          "if vs1 = [] then snd y = s1 \<and> volts s1 \<le> endVoltage cfg
                else last vs1 \<le> endVoltage cfg \<and> endVoltage cfg < volts s1"
          by blast
        from continue(2) have "\<exists>vs. map fst (records (log_lines (snd y))) = map fst (records (log_lines s)) @ vs \<and>
               (\<forall>v\<in>set (butlast vs). endVoltage cfg < v) \<and>
               (if vs = [] then snd y = s \<and> volts s \<le> endVoltage cfg
                else last vs \<le> endVoltage cfg \<and> endVoltage cfg < volts s)"
        proof (cases rule: cell_body_cases)
          case (fault e)
          then show ?thesis by simp
        next
          case (emit v c)
          show ?thesis
            using vs1 emit(4,5) continue(1)
            by (intro exI[of _ "volts s1 # vs1"]) (auto split: if_splits)
        qed
        with le show "volts (snd y) \<le> endVoltage cfg \<and>
         (\<exists>vs. map fst (records (log_lines (snd y))) = map fst (records (log_lines s)) @ vs \<and>
               (\<forall>v\<in>set (butlast vs). endVoltage cfg < v) \<and>
               (if vs = [] then snd y = s \<and> volts s \<le> endVoltage cfg
                else last vs \<le> endVoltage cfg \<and> endVoltage cfg < volts s))" by blast
      qed
    qed
  qed
  then show ?thesis unfolding fst_conv snd_conv by blast
qed

lemma leave_try_None [simp]: "leave_try None s = finally_block s"
  by (simp add: leave_try_def)

lemma leave_try_fields [simp]:
  "log_lines (leave_try r s) = log_lines s" "console (leave_try r s) = console s"
  "averageCurrent (leave_try r s) = averageCurrent s" "totalReadings (leave_try r s) = totalReadings s"
  "readCount (leave_try r s) = readCount s" "Vave (leave_try r s) = Vave s"
  "Aave (leave_try r s) = Aave s" "Tave (leave_try r s) = Tave s"
  "nV (leave_try r s) = nV s" "nA (leave_try r s) = nA s"
  "nS (leave_try r s) = nS s" "nT (leave_try r s) = nT s"
  "monotonic_ns env (leave_try r s) = monotonic_ns env s"
  "startTime (leave_try r s) = startTime s"
  by (simp_all add: leave_try_def finally_block_def monotonic_ns_def)

subsection \<open>The whole run\<close>

lemma finally_block_fields [simp]:
  "log_lines (finally_block s) = log_lines s" "console (finally_block s) = console s"
  "averageCurrent (finally_block s) = averageCurrent s" "totalReadings (finally_block s) = totalReadings s"
  "readCount (finally_block s) = readCount s" "Vave (finally_block s) = Vave s"
  "Aave (finally_block s) = Aave s" "Tave (finally_block s) = Tave s"
  "nV (finally_block s) = nV s" "nA (finally_block s) = nA s"
  "nS (finally_block s) = nS s" "nT (finally_block s) = nT s"
  "monotonic_ns env (finally_block s) = monotonic_ns env s"
  "startTime (finally_block s) = startTime s"
  "relay1 (finally_block s) = False" "relay2 (finally_block s) = False"
  "relay3 (finally_block s) = False" "relay4 (finally_block s) = False"
  "relay_calls (finally_block s) = relay_calls s @ [RelayOff 1, RelayOff 2, RelayOff 3, RelayOff 4]"
  by (simp_all add: finally_block_def monotonic_ns_def)

lemma summaries_keep [simp]:
  "summaries (TotalTime h # ms) = TotalTime h # summaries ms"
  "summaries (Capacity c # ms) = Capacity c # summaries ms"
  "summaries (RunEnded a h c # ms) = RunEnded a h c # summaries ms"
  by (simp_all add: summaries_def)

lemma summary_eq:
  "summary env s =
     (None, s\<lparr>averageCurrent := final_average s,
              log_lines := log_lines s @ [TotalTime (wall_hours env s), Capacity (final_average s * wall_hours env s)],
              console := console s @
                [RunEnded (final_average s) (wall_hours env s) (final_average s * wall_hours env s)]\<rparr>)"
  by (simp add: summary_def py_div_def Let_def final_average_def wall_hours_def)

lemma cell_summary_eq:
  "cell_summary cfg s =
     (None, s\<lparr>averageCurrent := final_average s,
              log_lines := log_lines s @ [TotalTime (nominal_hours cfg s), Capacity (final_average s * nominal_hours cfg s)],
              console := console s @
                [RunEnded (final_average s) (nominal_hours cfg s) (final_average s * nominal_hours cfg s)]\<rparr>)"
  by (simp add: cell_summary_def py_div_def Let_def final_average_def nominal_hours_def)

lemma run_2S_cases:
  assumes "run_2S cfg env = Some (r, s)"
  obtains
    (startup_fault) e s1 where "startup cfg env init_state = Some (Some e, s1)"
      "r = Some e" "s = leave_try (Some e) s1"
  | (loop_fault) e s1 s2 where "startup cfg env init_state = Some (None, s1)"
      "main_loop cfg env s1 = Some (Some e, s2)" "r = Some e" "s = leave_try (Some e) s2"
  | (finished) s1 s2 where "startup cfg env init_state = Some (None, s1)"
      "main_loop cfg env s1 = Some (None, s2)" "r = None" "s = finally_block (snd (summary env s2))"
  using assms unfolding run_2S_def try_block_def
  by (auto split: option.splits prod.splits simp: summary_eq)

lemma cell_startup_cases:
  assumes "cell_startup cfg env s = (r, s1)"
  obtains
    (fault) e where "r = Some e" "log_lines s1 = log_lines s" "console s1 = console s"
      "averageCurrent s1 = averageCurrent s" "totalReadings s1 = totalReadings s"
  | (ok) v where "r = None" "voltage_at env (nV s) = Inr v" "volts s1 = v"
      "log_lines s1 = log_lines s @ [Started v (endVoltage cfg)]"
      "console s1 = console s @ [Started v (endVoltage cfg)]"
      "averageCurrent s1 = averageCurrent s" "totalReadings s1 = totalReadings s"
  using assms unfolding cell_startup_def read_voltage_def
  by (auto split: sum.splits)

lemma run_cell_cases:
  assumes "run_cell cfg env = Some (r, s)"
  obtains
    (startup_fault) e s1 where "cell_startup cfg env init_state = (Some e, s1)"
      "r = Some e" "s = leave_try (Some e) s1"
  | (loop_fault) e s1 s2 where "cell_startup cfg env init_state = (None, s1)"
      "cell_loop cfg env s1 = Some (Some e, s2)" "r = Some e" "s = leave_try (Some e) s2"
  | (finished) s1 s2 where "cell_startup cfg env init_state = (None, s1)"
      "cell_loop cfg env s1 = Some (None, s2)" "r = None" "s = finally_block (snd (cell_summary cfg s2))"
  using assms unfolding run_cell_def cell_try_block_def
  by (auto split: option.splits prod.splits simp: cell_summary_eq)

lemma init_fields [simp]:
  "log_lines init_state = []" "console init_state = []" "averageCurrent init_state = 0"
  "totalReadings init_state = 0" "nV init_state = 0" "nA init_state = 0"
  "readCount init_state = 0"
  by (simp_all add: init_state_def)

lemma startup_tally:
  assumes "startup cfg env init_state = Some (None, s1)"
  shows "records (log_lines s1) = []" "averageCurrent s1 = 0" "totalReadings s1 = 0"
    "nV s1 = 1" "nA s1 = 0" "readCount s1 = 0" "Vave s1 = 0" "Aave s1 = 0" "Tave s1 = 0"
    "startTime s1 = monotonic_ns env s1"
  using assms by (cases rule: startup_cases; simp add: monotonic_ns_def)+

lemma cell_startup_tally:
  assumes "cell_startup cfg env init_state = (None, s1)"
  shows "records (log_lines s1) = []" "averageCurrent s1 = 0" "totalReadings s1 = 0"
  using assms by (cases rule: cell_startup_cases; simp)+

lemma final_average_mean:
  assumes "averageCurrent s = sum_list (map snd (records (log_lines s)))"
    and "totalReadings s = length (records (log_lines s))"
  shows "final_average s = (if records (log_lines s) = [] then 0 else mean (map snd (records (log_lines s))))"
  using assms by (simp add: final_average_def mean_def)

lemma run_2S_stopped_no_summary:
  assumes "run_2S cfg env = Some (Some e, s)"
  shows "summaries (log_lines s) = [] \<and> summaries (console s) = []"
  using assms
proof (cases rule: run_2S_cases)
  case (startup_fault e' s1)
  from startup_fault(1) show ?thesis using startup_fault(3)
    by (cases rule: startup_cases) simp_all
next
  case (loop_fault e' s1 s2)
  from loop_fault(1) have "summaries (log_lines s1) = []" "summaries (console s1) = []"
    by (cases rule: startup_cases; simp)+
  with main_loop_tally[OF loop_fault(2)] loop_fault(4) show ?thesis by simp
qed simp

lemma run_cell_stopped_no_summary:
  assumes "run_cell cfg env = Some (Some e, s)"
  shows "summaries (log_lines s) = [] \<and> summaries (console s) = []"
  using assms
proof (cases rule: run_cell_cases)
  case (startup_fault e' s1)
  from startup_fault(1) show ?thesis using startup_fault(3)
    by (cases rule: cell_startup_cases) simp_all
next
  case (loop_fault e' s1 s2)
  from loop_fault(1) have "summaries (log_lines s1) = []" "summaries (console s1) = []"
    by (cases rule: cell_startup_cases; simp)+
  with cell_loop_tally[OF loop_fault(2)] loop_fault(4) show ?thesis by simp
qed simp

subsection \<open>Evaluation of the concrete runs\<close>

lemmas temp_defs = py_index_def sleep_def is_space_def strip_def last3_def find_str_def
  read_temp_raw_def parse_temp_def read_temp_def dec_digit_def dec_mantissa_def dec_exponent_def
  is_e_def dec_unsigned_def dec_float_def Let_def

lemmas run_defs = py_div_def py_add_def monotonic_ns_def sleep_def read_voltage_def
  read_current_def emit_record_def loop_body_def startup_def summary_def try_block_def
  finally_block_def leave_try_def run_2S_def cell_body_def cell_startup_def cell_summary_def cell_try_block_def
  run_cell_def init_state_def config_2S_def config_cell_def Let_def

lemma read_temp_valid:
  "w1_slave_at env (nT s) = Inr w1_valid \<Longrightarrow> float_of env = dec_float \<Longrightarrow>
   read_temp env s = Some (Inr (TNum (185 / 8)), s\<lparr>nT := nT s + 1\<rparr>)"
  by (simp add: temp_defs w1_valid_def retry_loop.simps)

lemma run_2S_example: "run_2S config_2S env_example = Some (None, st_example)"
  by (simp add: run_defs read_temp_valid env_example_def st_example_def main_loop.simps)

lemmas env_defs = env_example_def env_sensor_fault_def env_interrupt_def env_cell_example_def
  env_interrupt_first_def env_killed_def
  env_flat_def env_no_marker_def env_never_valid_def

lemmas st_defs = st_example_def st_started_def st_after_first_def st_before_last_def
  st_loop_end_def st_sensor_fault_def st_interrupt_def st_cell_started_def st_cell_mid_def
  st_cell_loop_end_def st_cell_example_def st_flat_2S_def st_flat_cell_def st_no_marker_def
  st_killed_def st_cell_killed_def st_interrupt_first_def st_cell_interrupt_first_def

lemma read_temp_no_marker:
  "w1_slave_at env (nT s) = Inr w1_no_marker \<Longrightarrow>
   read_temp env s = Some (Inr TNone, s\<lparr>nT := nT s + 1\<rparr>)"
  by (simp add: temp_defs w1_no_marker_def retry_loop.simps)

lemma run_2S_sensor_fault: "run_2S config_2S env_sensor_fault = Some (Some (Raised OSError), st_sensor_fault)"
  by (simp add: run_defs read_temp_valid env_defs st_defs main_loop.simps)

lemma run_cell_interrupt: "run_cell config_cell env_interrupt = Some (Some (Raised KeyboardInterrupt), st_interrupt)"
  by (simp add: run_defs env_defs st_defs cell_loop.simps)

lemma run_cell_example: "run_cell config_cell env_cell_example = Some (None, st_cell_example)"
  by (simp add: run_defs env_defs st_defs cell_loop.simps)

lemma cell_startup_example: "cell_startup config_cell env_cell_example init_state = (None, st_cell_started)"
  by (simp add: run_defs env_defs st_defs)

lemma cell_body_example_1: "cell_body config_cell env_cell_example st_cell_started = (None, st_cell_mid)"
  by (simp add: run_defs env_defs st_defs)

lemma cell_body_example_2: "cell_body config_cell env_cell_example st_cell_mid = (None, st_cell_loop_end)"
  by (simp add: run_defs env_defs st_defs)

lemma cell_loop_example: "cell_loop config_cell env_cell_example st_cell_started = Some (None, st_cell_loop_end)"
  by (simp add: run_defs env_defs st_defs cell_loop.simps)

lemma run_2S_flat: "run_2S config_2S env_flat = Some (None, st_flat_2S)"
  by (simp add: run_defs read_temp_valid env_defs st_defs main_loop.simps)

lemma run_cell_flat: "run_cell config_cell env_flat = Some (None, st_flat_cell)"
  by (simp add: run_defs env_defs st_defs cell_loop.simps)

lemma run_2S_no_marker: "run_2S config_2S env_no_marker = Some (Some (Raised TypeError), st_no_marker)"
  by (simp add: run_defs read_temp_no_marker env_defs st_defs main_loop.simps)

lemma startup_example: "startup config_2S env_example init_state = Some (None, st_started)"
  by (simp add: run_defs read_temp_valid env_defs st_defs)

lemma loop_body_example_first: "loop_body config_2S env_example st_started = Some (None, st_after_first)"
  by (simp add: run_defs read_temp_valid env_defs st_defs)

lemma loop_body_example_last: "loop_body config_2S env_example st_before_last = Some (None, st_loop_end)"
  by (simp add: run_defs read_temp_valid env_defs st_defs)

lemma main_loop_example: "main_loop config_2S env_example st_started = Some (None, st_loop_end)"
  by (simp add: run_defs read_temp_valid env_defs st_defs main_loop.simps)

lemma run_2S_killed: "run_2S config_2S env_killed = Some (Some Killed, st_killed)"
  by (simp add: run_defs read_temp_valid env_defs st_defs main_loop.simps)

lemma run_cell_killed: "run_cell config_cell env_killed = Some (Some Killed, st_cell_killed)"
  by (simp add: run_defs env_defs st_defs cell_loop.simps)

lemma run_2S_interrupt_first:
  "run_2S config_2S env_interrupt_first = Some (Some (Raised KeyboardInterrupt), st_interrupt_first)"
  by (simp add: run_defs read_temp_valid env_defs st_defs main_loop.simps)

lemma run_cell_interrupt_first:
  "run_cell config_cell env_interrupt_first = Some (Some (Raised KeyboardInterrupt), st_cell_interrupt_first)"
  by (simp add: run_defs env_defs st_defs cell_loop.simps)

subsection \<open>The retry loop on a block that never becomes valid\<close>

lemma retry_loop_never_returns:
  assumes "retry_loop env lines s = Some y"
  shows "\<not> (invalid_block lines \<and>
            (\<forall>k\<ge>nT s. \<exists>ls. w1_slave_at env k = Inr ls \<and> invalid_block ls) \<and>
            (\<forall>k. sleep_at env k = None))"
proof (rule retry_loop.raw_induct[where P = "\<lambda>env lines s y. \<not> (invalid_block lines \<and>
            (\<forall>k\<ge>nT s. \<exists>ls. w1_slave_at env k = Inr ls \<and> invalid_block ls) \<and>
            (\<forall>k. sleep_at env k = None))", OF _ assms], goal_cases)
  case (1 f env lines s y)
  show ?case
  proof
    assume a: "invalid_block lines \<and>
            (\<forall>k\<ge>nT s. \<exists>ls. w1_slave_at env k = Inr ls \<and> invalid_block ls) \<and>
            (\<forall>k. sleep_at env k = None)"
    then obtain l0 rest where l: "lines = l0 # rest" "last3 (strip l0) \<noteq> ''YES''"
      by (auto simp: invalid_block_def split: list.splits)
    from a obtain ls where ls: "w1_slave_at env (nT s) = Inr ls" "invalid_block ls" by auto
    from a have sl: "sleep_at env (nS s) = None" by simp
    have "f env ls (s\<lparr>nS := nS s + 1, nT := nT s + 1\<rparr>) = Some y"
      using 1(2) l ls(1) sl by (simp add: py_index_def sleep_def read_temp_raw_def)
    from 1(1)[OF this] ls(2) a show False by auto
  qed
qed

lemma invalid_block_w1_invalid: "invalid_block w1_invalid"
  by (simp add: invalid_block_def w1_invalid_def strip_def last3_def is_space_def)

section \<open>The claims\<close>

text \<open>
  Claim C1, as amended. When the loop of either script ends normally, the end-of-run
  statistics are produced exactly once: the total time and the capacity are the last two
  lines of the log, the capacity is the average current times the total time, and the
  three values are printed in one line. When an exception leaves the \<open>try\<close> block
  (during start-up or in the loop body), no end-of-run line is logged or printed.
\<close>

theorem summary_only_after_normal_loop_exit:
  "(run_2S cfg env = Some (r, s) \<longrightarrow>
      (case r of
         None \<Rightarrow> \<exists>pre a h. log_lines s = pre @ [TotalTime h, Capacity (a * h)] \<and> summaries pre = [] \<and>
                   summaries (console s) = [RunEnded a h (a * h)]
       | Some e \<Rightarrow> summaries (log_lines s) = [] \<and> summaries (console s) = [])) \<and>
   (run_cell cfg' env' = Some (r', s') \<longrightarrow>
      (case r' of
         None \<Rightarrow> \<exists>pre a h. log_lines s' = pre @ [TotalTime h, Capacity (a * h)] \<and> summaries pre = [] \<and>
                   summaries (console s') = [RunEnded a h (a * h)]
       | Some e \<Rightarrow> summaries (log_lines s') = [] \<and> summaries (console s') = []))"
proof (intro conjI impI)
  assume "run_2S cfg env = Some (r, s)"
  then show "case r of
         None \<Rightarrow> \<exists>pre a h. log_lines s = pre @ [TotalTime h, Capacity (a * h)] \<and> summaries pre = [] \<and>
                   summaries (console s) = [RunEnded a h (a * h)]
       | Some e \<Rightarrow> summaries (log_lines s) = [] \<and> summaries (console s) = []"
  proof (cases rule: run_2S_cases)
    case (startup_fault e s1)
    from startup_fault(1) show ?thesis using startup_fault(2,3)
      by (cases rule: startup_cases) simp_all
  next
    case (loop_fault e s1 s2)
    from loop_fault(1) have "summaries (log_lines s1) = []" "summaries (console s1) = []"
      by (cases rule: startup_cases; simp)+
    with main_loop_tally[OF loop_fault(2)] loop_fault(3,4) show ?thesis by simp
  next
    case (finished s1 s2)
    from finished(1) have "summaries (log_lines s1) = []" "summaries (console s1) = []"
      by (cases rule: startup_cases; simp)+
    with main_loop_tally[OF finished(2)] have "summaries (log_lines s2) = []" "summaries (console s2) = []"
      by simp_all
    then show ?thesis using finished(3,4)
      by (auto simp: summary_eq intro!: exI[of _ "log_lines s2"] exI[of _ "final_average s2"]
          exI[of _ "wall_hours env s2"])
  qed
next
  assume "run_cell cfg' env' = Some (r', s')"
  then show "case r' of
         None \<Rightarrow> \<exists>pre a h. log_lines s' = pre @ [TotalTime h, Capacity (a * h)] \<and> summaries pre = [] \<and>
                   summaries (console s') = [RunEnded a h (a * h)]
       | Some e \<Rightarrow> summaries (log_lines s') = [] \<and> summaries (console s') = []"
  proof (cases rule: run_cell_cases)
    case (startup_fault e s1)
    from startup_fault(1) show ?thesis using startup_fault(2,3)
      by (cases rule: cell_startup_cases) simp_all
  next
    case (loop_fault e s1 s2)
    from loop_fault(1) have "summaries (log_lines s1) = []" "summaries (console s1) = []"
      by (cases rule: cell_startup_cases; simp)+
    with cell_loop_tally[OF loop_fault(2)] loop_fault(3,4) show ?thesis by simp
  next
    case (finished s1 s2)
    from finished(1) have "summaries (log_lines s1) = []" "summaries (console s1) = []"
      by (cases rule: cell_startup_cases; simp)+
    with cell_loop_tally[OF finished(2)] have "summaries (log_lines s2) = []" "summaries (console s2) = []"
      by simp_all
    then show ?thesis using finished(3,4)
      by (auto simp: cell_summary_eq intro!: exI[of _ "log_lines s2"] exI[of _ "final_average s2"]
          exI[of _ "nominal_hours cfg' s2"])
  qed
qed

theorem summary_only_after_normal_loop_exit_witness:
  "run_2S config_2S env_example = Some (None, st_example) \<and>
   run_cell config_cell env_interrupt = Some (Some (Raised KeyboardInterrupt), st_interrupt) \<and>
   (\<exists>pre a h. log_lines st_example = pre @ [TotalTime h, Capacity (a * h)] \<and> summaries pre = [] \<and>
       summaries (console st_example) = [RunEnded a h (a * h)]) \<and>
   summaries (log_lines st_interrupt) = [] \<and> summaries (console st_interrupt) = []"
  using summary_only_after_normal_loop_exit[of config_2S env_example None st_example
      config_cell env_interrupt "Some (Raised KeyboardInterrupt)" st_interrupt]
    run_2S_example run_cell_interrupt
  by simp

text \<open>
  Claim C1 as stated fails: when the voltage sensor raises in the third pass of the loop,
  the averaging logger ends with that exception and neither the log nor the console
  holds an end-of-run line.
\<close>

theorem summary_skipped_on_fault_counterexample:
  "run_2S config_2S env_sensor_fault = Some (Some (Raised OSError), st_sensor_fault) \<and>
   summaries (log_lines st_sensor_fault) = [] \<and> summaries (console st_sensor_fault) = []"
  using run_2S_sensor_fault by (simp add: st_defs)

text \<open>
  Claim C2, as amended. In the averaging logger the reported total time is the time on
  the monotonic clock from the start of the loop to its end, in hours; in the
  single-sample logger it is \<open>logInterval\<close> times the number of records, in hours. In
  both, the reported capacity is the reported average current times the reported total
  time.
\<close>

theorem total_hours_per_variant:
  "(run_2S cfg env = Some (None, s) \<longrightarrow>
      (\<exists>s1 pre. startup cfg env init_state = Some (None, s1) \<and>
         log_lines s = pre @ [TotalTime (hours_between env s1 s),
                        Capacity (averageCurrent s * hours_between env s1 s)] \<and>
         last (console s) = RunEnded (averageCurrent s) (hours_between env s1 s)
                               (averageCurrent s * hours_between env s1 s))) \<and>
   (run_cell cfg' env' = Some (None, s') \<longrightarrow>
      (\<exists>pre. log_lines s' = pre @ [TotalTime (logInterval cfg' * real (length (records (log_lines s'))) / 3600),
                 Capacity (averageCurrent s' * (logInterval cfg' * real (length (records (log_lines s'))) / 3600))] \<and>
         last (console s') = RunEnded (averageCurrent s')
                               (logInterval cfg' * real (length (records (log_lines s'))) / 3600)
                               (averageCurrent s' * (logInterval cfg' * real (length (records (log_lines s'))) / 3600))))"
proof (intro conjI impI)
  assume "run_2S cfg env = Some (None, s)"
  then show "\<exists>s1 pre. startup cfg env init_state = Some (None, s1) \<and>
         log_lines s = pre @ [TotalTime (hours_between env s1 s),
                        Capacity (averageCurrent s * hours_between env s1 s)] \<and>
         last (console s) = RunEnded (averageCurrent s) (hours_between env s1 s)
                               (averageCurrent s * hours_between env s1 s)"
  proof (cases rule: run_2S_cases)
    case (finished s1 s2)
    note t = startup_tally[OF finished(1)]
    from main_loop_tally[OF finished(2)] t have st: "startTime s2 = monotonic_ns env s1" by simp
    have m: "monotonic_ns env s = monotonic_ns env s2"
      using finished(4) by (simp add: summary_eq monotonic_ns_def)
    have h: "wall_hours env s2 = hours_between env s1 s"
      by (simp add: wall_hours_def hours_between_def st m)
    have l: "log_lines s = log_lines s2 @ [TotalTime (wall_hours env s2),
                               Capacity (final_average s2 * wall_hours env s2)]"
      "last (console s) = RunEnded (final_average s2) (wall_hours env s2)
                               (final_average s2 * wall_hours env s2)"
      "averageCurrent s = final_average s2"
      using finished(4) by (simp_all add: summary_eq)
    show ?thesis using finished(1) l unfolding h
      by (intro exI[of _ s1] exI[of _ "log_lines s2"]) simp
  qed simp_all
next
  assume "run_cell cfg' env' = Some (None, s')"
  then show "\<exists>pre. log_lines s' = pre @ [TotalTime (logInterval cfg' * real (length (records (log_lines s'))) / 3600),
                 Capacity (averageCurrent s' * (logInterval cfg' * real (length (records (log_lines s'))) / 3600))] \<and>
         last (console s') = RunEnded (averageCurrent s')
                               (logInterval cfg' * real (length (records (log_lines s'))) / 3600)
                               (averageCurrent s' * (logInterval cfg' * real (length (records (log_lines s'))) / 3600))"
  proof (cases rule: run_cell_cases)
    case (finished s1 s2)
    note t = cell_startup_tally[OF finished(1)]
    from cell_loop_tally[OF finished(2)] t
    have a: "totalReadings s2 = length (records (log_lines s2))" by simp
    have r: "records (log_lines s') = records (log_lines s2)" using finished(4) by (simp add: cell_summary_eq)
    show ?thesis using finished(4) a r
      by (intro exI[of _ "log_lines s2"]) (simp add: cell_summary_eq nominal_hours_def)
  qed simp_all
qed

theorem total_hours_per_variant_witness:
  "run_2S config_2S env_example = Some (None, st_example) \<and>
   run_cell config_cell env_cell_example = Some (None, st_cell_example) \<and>
   (\<exists>s1 pre. startup config_2S env_example init_state = Some (None, s1) \<and>
         log_lines st_example = pre @ [TotalTime (hours_between env_example s1 st_example),
                        Capacity (averageCurrent st_example * hours_between env_example s1 st_example)]) \<and>
   (\<exists>pre. log_lines st_cell_example =
       pre @ [TotalTime (logInterval config_cell * real (length (records (log_lines st_cell_example))) / 3600),
              Capacity (averageCurrent st_cell_example *
                (logInterval config_cell * real (length (records (log_lines st_cell_example))) / 3600))])"
  using total_hours_per_variant[of config_2S env_example st_example config_cell env_cell_example st_cell_example]
    run_2S_example run_cell_example
  by auto

text \<open>
  Claim C2 as stated fails for the single-sample logger: with two records and 5.5
  seconds per action, 33 seconds pass on the clock between the start and the end of the
  loop (11/1200 hours), and the log reports 30 seconds (1/120 hours).
\<close>

theorem cell_total_hours_not_wall_clock_counterexample:
  "run_cell config_cell env_cell_example = Some (None, st_cell_example) \<and>
   cell_startup config_cell env_cell_example init_state = (None, st_cell_started) \<and>
   hours_between env_cell_example st_cell_started st_cell_example = 11 / 1200 \<and>
   TotalTime (1 / 120) \<in> set (log_lines st_cell_example) \<and>
   TotalTime (11 / 1200) \<notin> set (log_lines st_cell_example)"
  using run_cell_example cell_startup_example
  by (simp add: hours_between_def monotonic_ns_def env_defs st_defs)

text \<open>
  Claim C3 (a malformed block makes \<open>read_temp\<close> return -99, and the run continues)
  does not hold of the code: on a block whose first line is valid and whose second line
  has no \<open>t=\<close>, \<open>read_temp\<close> returns \<open>None\<close>, and the first pass of the loop then
  raises \<open>TypeError\<close> at \<open>Tave + Tdat\<close>, which ends the run.
\<close>

theorem read_temp_missing_marker_returns_None:
  "read_temp env_no_marker init_state = Some (Inr TNone, init_state\<lparr>nT := 1\<rparr>) \<and>
   run_2S config_2S env_no_marker = Some (Some (Raised TypeError), st_no_marker)"
  using read_temp_no_marker[of env_no_marker init_state] run_2S_no_marker
  by (simp add: env_defs init_state_def)

text \<open>
  Claim C4, as amended. Whenever a run of either script ends normally or with an
  exception of any kind, a keyboard interrupt included, \<open>off()\<close> has been called on
  relay 1, 2, 3 and 4, in that order, as the last four relay calls of the run, also on
  the relays that were never switched on, and all four relays are off in the final
  state. This does not extend to a process that is killed without an exception being
  raised.
\<close>

theorem relays_switched_off_unless_killed:
  "(run_2S cfg env = Some (r, s) \<and> r \<noteq> Some Killed \<longrightarrow>
      (\<exists>calls. relay_calls s = calls @ [RelayOff 1, RelayOff 2, RelayOff 3, RelayOff 4]) \<and>
      \<not> relay1 s \<and> \<not> relay2 s \<and> \<not> relay3 s \<and> \<not> relay4 s) \<and>
   (run_cell cfg' env' = Some (r', s') \<and> r' \<noteq> Some Killed \<longrightarrow>
      (\<exists>calls. relay_calls s' = calls @ [RelayOff 1, RelayOff 2, RelayOff 3, RelayOff 4]) \<and>
      \<not> relay1 s' \<and> \<not> relay2 s' \<and> \<not> relay3 s' \<and> \<not> relay4 s')"
  by (auto simp: run_2S_def run_cell_def leave_try_def split: option.splits)

theorem relays_switched_off_unless_killed_witness:
  "run_2S config_2S env_sensor_fault = Some (Some (Raised OSError), st_sensor_fault) \<and>
   run_cell config_cell env_interrupt = Some (Some (Raised KeyboardInterrupt), st_interrupt) \<and>
   run_2S config_2S env_example = Some (None, st_example) \<and>
   run_cell config_cell env_cell_example = Some (None, st_cell_example) \<and>
   relay_calls st_sensor_fault = [RelayOn 1, RelayOff 1, RelayOff 2, RelayOff 3, RelayOff 4] \<and>
   relay_calls st_interrupt = [RelayOn 2, RelayOff 1, RelayOff 2, RelayOff 3, RelayOff 4] \<and>
   (\<exists>calls. relay_calls st_example = calls @ [RelayOff 1, RelayOff 2, RelayOff 3, RelayOff 4]) \<and>
   (\<exists>calls. relay_calls st_cell_example = calls @ [RelayOff 1, RelayOff 2, RelayOff 3, RelayOff 4]) \<and>
   \<not> relay1 st_sensor_fault \<and> \<not> relay2 st_sensor_fault \<and> \<not> relay3 st_sensor_fault \<and> \<not> relay4 st_sensor_fault \<and>
   \<not> relay1 st_interrupt \<and> \<not> relay2 st_interrupt \<and> \<not> relay3 st_interrupt \<and> \<not> relay4 st_interrupt \<and>
   \<not> relay1 st_example \<and> \<not> relay2 st_example \<and> \<not> relay3 st_example \<and> \<not> relay4 st_example \<and>
   \<not> relay1 st_cell_example \<and> \<not> relay2 st_cell_example \<and> \<not> relay3 st_cell_example \<and> \<not> relay4 st_cell_example"
  using relays_switched_off_unless_killed[of config_2S env_sensor_fault "Some (Raised OSError)" st_sensor_fault
      config_cell env_interrupt "Some (Raised KeyboardInterrupt)" st_interrupt]
    relays_switched_off_unless_killed[of config_2S env_example None st_example
      config_cell env_cell_example None st_cell_example]
    run_2S_sensor_fault run_cell_interrupt run_2S_example run_cell_example
  by (simp add: st_defs)

text \<open>
  Claim C4 as stated fails for an interruption from outside that is not an exception:
  when the process is killed during its third \<open>sleep\<close>, the \<open>finally\<close> block does not
  run, no \<open>off()\<close> is called, and the relay that carries the load stays on (relay 1 in
  the averaging logger, relay 2 in the single-sample logger).
\<close>

theorem relays_left_on_when_killed_counterexample:
  "run_2S config_2S env_killed = Some (Some Killed, st_killed) \<and>
   relay1 st_killed \<and> relay_calls st_killed = [RelayOn 1] \<and>
   run_cell config_cell env_killed = Some (Some Killed, st_cell_killed) \<and>
   relay2 st_cell_killed \<and> relay_calls st_cell_killed = [RelayOn 2]"
  using run_2S_killed run_cell_killed by (simp add: st_defs)

text \<open>
  Claim C5. If the loop ends normally, the guard voltage is at most \<open>endVoltage\<close>; of
  the records logged during the loop, every one but the last has a voltage above
  \<open>endVoltage\<close> and the last has a voltage at most \<open>endVoltage\<close>; if no record was
  logged, the loop did nothing and the voltage was at most \<open>endVoltage\<close> on entry.
  Conversely, when a pass of the body brings the guard voltage to \<open>endVoltage\<close> or
  below, the loop ends in the state that pass produced. Both hold of the averaging
  loop and of the single-sample loop.
\<close>

theorem loop_stops_at_first_low_record:
  "(main_loop cfg env s = Some (None, s') \<longrightarrow>
      volts s' \<le> endVoltage cfg \<and>
      (\<exists>vs. map fst (records (log_lines s')) = map fst (records (log_lines s)) @ vs \<and>
            (\<forall>v\<in>set (butlast vs). endVoltage cfg < v) \<and>
            (if vs = [] then s' = s \<and> volts s \<le> endVoltage cfg
             else last vs \<le> endVoltage cfg \<and> endVoltage cfg < volts s))) \<and>
   (endVoltage cfg < volts s0 \<and> loop_body cfg env s0 = Some (None, s1) \<and> volts s1 \<le> endVoltage cfg \<longrightarrow>
      main_loop cfg env s0 = Some (None, s1)) \<and>
   (cell_loop cfg' env' t = Some (None, t') \<longrightarrow>
      volts t' \<le> endVoltage cfg' \<and>
      (\<exists>vs. map fst (records (log_lines t')) = map fst (records (log_lines t)) @ vs \<and>
            (\<forall>v\<in>set (butlast vs). endVoltage cfg' < v) \<and>
            (if vs = [] then t' = t \<and> volts t \<le> endVoltage cfg'
             else last vs \<le> endVoltage cfg' \<and> endVoltage cfg' < volts t))) \<and>
   (endVoltage cfg' < volts t0 \<and> cell_body cfg' env' t0 = (None, t1) \<and> volts t1 \<le> endVoltage cfg' \<longrightarrow>
      cell_loop cfg' env' t0 = Some (None, t1))"
proof (intro conjI impI)
  assume "main_loop cfg env s = Some (None, s')"
  from main_loop_trace[OF this]
  show "volts s' \<le> endVoltage cfg"
    "\<exists>vs. map fst (records (log_lines s')) = map fst (records (log_lines s)) @ vs \<and>
            (\<forall>v\<in>set (butlast vs). endVoltage cfg < v) \<and>
            (if vs = [] then s' = s \<and> volts s \<le> endVoltage cfg
             else last vs \<le> endVoltage cfg \<and> endVoltage cfg < volts s)" by blast+
next
  assume "cell_loop cfg' env' t = Some (None, t')"
  from cell_loop_trace[OF this]
  show "volts t' \<le> endVoltage cfg'"
    "\<exists>vs. map fst (records (log_lines t')) = map fst (records (log_lines t)) @ vs \<and>
            (\<forall>v\<in>set (butlast vs). endVoltage cfg' < v) \<and>
            (if vs = [] then t' = t \<and> volts t \<le> endVoltage cfg'
             else last vs \<le> endVoltage cfg' \<and> endVoltage cfg' < volts t)" by blast+
next
  assume a: "endVoltage cfg < volts s0 \<and> loop_body cfg env s0 = Some (None, s1) \<and> volts s1 \<le> endVoltage cfg"
  have "main_loop cfg env s0 = main_loop cfg env s1"
    using a by (subst main_loop.simps) simp
  also have "\<dots> = Some (None, s1)" using a by (subst main_loop.simps) simp
  finally show "main_loop cfg env s0 = Some (None, s1)" .
next
  assume a: "endVoltage cfg' < volts t0 \<and> cell_body cfg' env' t0 = (None, t1) \<and> volts t1 \<le> endVoltage cfg'"
  have "cell_loop cfg' env' t0 = cell_loop cfg' env' t1"
    using a by (subst cell_loop.simps) simp
  also have "\<dots> = Some (None, t1)" using a by (subst cell_loop.simps) simp
  finally show "cell_loop cfg' env' t0 = Some (None, t1)" .
qed

theorem loop_stops_at_first_low_record_witness:
  "main_loop config_2S env_example st_started = Some (None, st_loop_end) \<and>
   endVoltage config_2S < volts st_before_last \<and>
   loop_body config_2S env_example st_before_last = Some (None, st_loop_end) \<and>
   volts st_loop_end \<le> endVoltage config_2S \<and>
   cell_loop config_cell env_cell_example st_cell_started = Some (None, st_cell_loop_end) \<and>
   endVoltage config_cell < volts st_cell_mid \<and>
   cell_body config_cell env_cell_example st_cell_mid = (None, st_cell_loop_end) \<and>
   volts st_cell_loop_end \<le> endVoltage config_cell \<and>
   main_loop config_2S env_example st_before_last = Some (None, st_loop_end) \<and>
   cell_loop config_cell env_cell_example st_cell_mid = Some (None, st_cell_loop_end) \<and>
   map fst (records (log_lines st_loop_end)) = [119 / 20, 57 / 10] \<and>
   map fst (records (log_lines st_cell_loop_end)) = [3, 13 / 5]"
  using loop_stops_at_first_low_record[of config_2S env_example st_started st_loop_end
      st_before_last st_loop_end config_cell env_cell_example st_cell_started st_cell_loop_end
      st_cell_mid st_cell_loop_end]
    main_loop_example loop_body_example_last cell_loop_example cell_body_example_2
  by (simp add: st_defs config_2S_def config_cell_def)

text \<open>
  Claim C6. In every run of the averaging logger that ends, the \<open>j\<close>-th logged record
  holds the mean of the \<open>readingsToAverage\<close> consecutive voltage reads that follow the
  start-up read and the \<open>j\<close> earlier windows, and the mean of the corresponding current
  reads; all of those reads returned a value.
\<close>

theorem record_is_mean_of_window:
  assumes "run_2S cfg env = Some (r, s)"
  shows "\<forall>j < length (records (log_lines s)). is_window_mean cfg env 1 0 j (records (log_lines s) ! j)"
  using assms
proof (cases rule: run_2S_cases)
  case (startup_fault e s1)
  from startup_fault(1) have "records (log_lines s1) = []" by (cases rule: startup_cases) simp_all
  with startup_fault(3) show ?thesis by simp
next
  case (loop_fault e s1 s2)
  note t = startup_tally[OF loop_fault(1)]
  from main_loop_records[OF loop_fault(2), rule_format, of 1 0 "[]" "[]"] t loop_fault(4)
  show ?thesis by auto
next
  case (finished s1 s2)
  note t = startup_tally[OF finished(1)]
  from main_loop_records[OF finished(2), rule_format, of 1 0 "[]" "[]"] t finished(4)
  show ?thesis by (auto simp: summary_eq)
qed

theorem record_is_mean_of_window_witness:
  "run_2S config_2S env_example = Some (None, st_example) \<and>
   records (log_lines st_example) = [(119 / 20, 800), (57 / 10, 800)] \<and>
   is_window_mean config_2S env_example 1 0 0 (119 / 20, 800) \<and>
   is_window_mean config_2S env_example 1 0 1 (57 / 10, 800) \<and>
   window_of (voltage_at env_example) 1 8 = Some [6, 59 / 10, 6, 59 / 10, 6, 59 / 10, 6, 59 / 10]"
proof -
  have w: "window_of (voltage_at env_example) 1 8 = Some [6, 59 / 10, 6, 59 / 10, 6, 59 / 10, 6, 59 / 10]"
    by code_simp
  have l: "records (log_lines st_example) = [(119 / 20, 800), (57 / 10, 800)]"
    by (simp add: st_defs)
  note m = record_is_mean_of_window[OF run_2S_example, rule_format]
  from m[of 0] m[of 1] l run_2S_example w show ?thesis by simp
qed



text \<open>
  Claim C8, as amended. The end-of-run statistics never raise: the division by the
  number of records is skipped when that number is 0. When a run of either script ends
  normally without a logged record, the reported average current is 0 and the reported
  capacity is 0. When a run is ended by an exception or a kill, with or without a
  logged record, it reports no average current and no capacity at all.
\<close>

theorem zero_records_zero_capacity:
  "fst (summary env0 s0) = None \<and> fst (cell_summary cfg0 s0) = None \<and>
   (run_2S cfg env = Some (None, s) \<and> records (log_lines s) = [] \<longrightarrow>
      averageCurrent s = 0 \<and>
      (\<exists>pre h. log_lines s = pre @ [TotalTime h, Capacity 0] \<and> last (console s) = RunEnded 0 h 0)) \<and>
   (run_cell cfg' env' = Some (None, s') \<and> records (log_lines s') = [] \<longrightarrow>
      averageCurrent s' = 0 \<and>
      (\<exists>pre h. log_lines s' = pre @ [TotalTime h, Capacity 0] \<and> last (console s') = RunEnded 0 h 0)) \<and>
   (run_2S cfg1 env1 = Some (Some e1, s1) \<longrightarrow>
      summaries (log_lines s1) = [] \<and> summaries (console s1) = []) \<and>
   (run_cell cfg2 env2 = Some (Some e2, s2) \<longrightarrow>
      summaries (log_lines s2) = [] \<and> summaries (console s2) = [])"
proof (intro conjI impI)
  show "fst (summary env0 s0) = None" by (simp add: summary_eq)
  show "fst (cell_summary cfg0 s0) = None" by (simp add: cell_summary_eq)
next
  assume "run_2S cfg env = Some (None, s) \<and> records (log_lines s) = []"
  then have run: "run_2S cfg env = Some (None, s)" and z: "records (log_lines s) = []" by simp_all
  from run have "averageCurrent s = 0 \<and>
      (\<exists>pre h. log_lines s = pre @ [TotalTime h, Capacity 0] \<and> last (console s) = RunEnded 0 h 0)"
  proof (cases rule: run_2S_cases)
    case (finished s1 s2)
    note t = startup_tally[OF finished(1)]
    from main_loop_tally[OF finished(2)] t
    have a: "averageCurrent s2 = sum_list (map snd (records (log_lines s2)))"
      "totalReadings s2 = length (records (log_lines s2))" by simp_all
    have r: "records (log_lines s2) = []" using finished(4) z by (simp add: summary_eq)
    have "final_average s2 = 0" using final_average_mean[OF a] r by simp
    then show ?thesis using finished(4) by (simp add: summary_eq)
  qed simp_all
  then show "averageCurrent s = 0"
    "\<exists>pre h. log_lines s = pre @ [TotalTime h, Capacity 0] \<and> last (console s) = RunEnded 0 h 0"
    by simp_all
next
  assume "run_cell cfg' env' = Some (None, s') \<and> records (log_lines s') = []"
  then have run: "run_cell cfg' env' = Some (None, s')" and z: "records (log_lines s') = []" by simp_all
  from run have "averageCurrent s' = 0 \<and>
      (\<exists>pre h. log_lines s' = pre @ [TotalTime h, Capacity 0] \<and> last (console s') = RunEnded 0 h 0)"
  proof (cases rule: run_cell_cases)
    case (finished s1 s2)
    note t = cell_startup_tally[OF finished(1)]
    from cell_loop_tally[OF finished(2)] t
    have a: "averageCurrent s2 = sum_list (map snd (records (log_lines s2)))"
      "totalReadings s2 = length (records (log_lines s2))" by simp_all
    have r: "records (log_lines s2) = []" using finished(4) z by (simp add: cell_summary_eq)
    have "final_average s2 = 0" using final_average_mean[OF a] r by simp
    then show ?thesis using finished(4) by (simp add: cell_summary_eq)
  qed simp_all
  then show "averageCurrent s' = 0"
    "\<exists>pre h. log_lines s' = pre @ [TotalTime h, Capacity 0] \<and> last (console s') = RunEnded 0 h 0"
    by simp_all
next
  assume "run_2S cfg1 env1 = Some (Some e1, s1)"
  from run_2S_stopped_no_summary[OF this]
  show "summaries (log_lines s1) = []" "summaries (console s1) = []" by simp_all
next
  assume "run_cell cfg2 env2 = Some (Some e2, s2)"
  from run_cell_stopped_no_summary[OF this]
  show "summaries (log_lines s2) = []" "summaries (console s2) = []" by simp_all
qed

theorem zero_records_zero_capacity_witness:
  "run_2S config_2S env_flat = Some (None, st_flat_2S) \<and> records (log_lines st_flat_2S) = [] \<and>
   run_cell config_cell env_flat = Some (None, st_flat_cell) \<and> records (log_lines st_flat_cell) = [] \<and>
   run_2S config_2S env_interrupt_first = Some (Some (Raised KeyboardInterrupt), st_interrupt_first) \<and>
   run_cell config_cell env_interrupt_first = Some (Some (Raised KeyboardInterrupt), st_cell_interrupt_first) \<and>
   averageCurrent st_flat_2S = 0 \<and> averageCurrent st_flat_cell = 0 \<and>
   (\<exists>pre h. log_lines st_flat_2S = pre @ [TotalTime h, Capacity 0] \<and> last (console st_flat_2S) = RunEnded 0 h 0) \<and>
   (\<exists>pre h. log_lines st_flat_cell = pre @ [TotalTime h, Capacity 0] \<and> last (console st_flat_cell) = RunEnded 0 h 0) \<and>
   summaries (log_lines st_interrupt_first) = [] \<and> summaries (console st_interrupt_first) = [] \<and>
   summaries (log_lines st_cell_interrupt_first) = [] \<and> summaries (console st_cell_interrupt_first) = []"
  using zero_records_zero_capacity[of env_flat init_state config_cell config_2S env_flat st_flat_2S
      config_cell env_flat st_flat_cell
      config_2S env_interrupt_first "Raised KeyboardInterrupt" st_interrupt_first
      config_cell env_interrupt_first "Raised KeyboardInterrupt" st_cell_interrupt_first]
    run_2S_flat run_cell_flat run_2S_interrupt_first run_cell_interrupt_first
  by (simp add: st_defs)

text \<open>
  Claim C8 as stated fails for a run that logs no record because it is interrupted
  before the first one: the keyboard interrupt during the first \<open>sleep\<close> leaves the
  script as the exception \<open>KeyboardInterrupt\<close>, and neither an average current nor a
  capacity is reported.
\<close>

theorem zero_record_run_ended_by_interrupt_counterexample:
  "run_2S config_2S env_interrupt_first = Some (Some (Raised KeyboardInterrupt), st_interrupt_first) \<and>
   records (log_lines st_interrupt_first) = [] \<and>
   summaries (log_lines st_interrupt_first) = [] \<and> summaries (console st_interrupt_first) = []"
  using run_2S_interrupt_first by (simp add: st_defs)

text \<open>
  Claim C9. When every read of the device file from now on yields a block whose first
  line does not end in \<open>YES\<close>, and no \<open>sleep\<close> is interrupted, \<open>read_temp\<close> never
  returns.
\<close>

theorem read_temp_never_returns:
  assumes "\<forall>k\<ge>nT s. \<exists>ls. w1_slave_at env k = Inr ls \<and> invalid_block ls"
    and "\<forall>k. sleep_at env k = None"
  shows "read_temp env s = None"
proof -
  from assms(1) obtain ls where ls: "w1_slave_at env (nT s) = Inr ls" "invalid_block ls" by auto
  have "retry_loop env ls (s\<lparr>nT := nT s + 1\<rparr>) = None"
  proof (cases "retry_loop env ls (s\<lparr>nT := nT s + 1\<rparr>)")
    case (Some y)
    from retry_loop_never_returns[OF this] ls(2) assms show ?thesis by auto
  qed simp
  then show ?thesis using ls(1) by (simp add: read_temp_def read_temp_raw_def)
qed

theorem read_temp_never_returns_witness:
  "read_temp env_never_valid init_state = None"
proof (rule read_temp_never_returns)
  show "\<forall>k\<ge>nT init_state. \<exists>ls. w1_slave_at env_never_valid k = Inr ls \<and> invalid_block ls"
    using invalid_block_w1_invalid by (simp add: env_defs)
  show "\<forall>k. sleep_at env_never_valid k = None"
    by (simp add: env_defs)
qed

text \<open>
  Claim C10. When a run of the averaging logger ends normally, \<open>readCount\<close> and the
  three running sums are 0, the number of samples taken in the loop (the number of
  current reads) is a multiple of \<open>readingsToAverage\<close>, and one more voltage read was
  made, at start-up. A pass of the loop body that logs nothing leaves the guard voltage
  unchanged.
\<close>

theorem normal_exit_only_at_record_boundary:
  "(run_2S cfg env = Some (None, s) \<longrightarrow>
      readCount s = 0 \<and> Vave s = 0 \<and> Aave s = 0 \<and> Tave s = 0 \<and>
      readingsToAverage cfg dvd nA s \<and> nV s = nA s + 1) \<and>
   (loop_body cfg env s0 = Some (None, s1) \<and> log_lines s1 = log_lines s0 \<longrightarrow> volts s1 = volts s0)"
proof (rule conjI; rule impI)
  assume "run_2S cfg env = Some (None, s)"
  then show "readCount s = 0 \<and> Vave s = 0 \<and> Aave s = 0 \<and> Tave s = 0 \<and>
      readingsToAverage cfg dvd nA s \<and> nV s = nA s + 1"
  proof (cases rule: run_2S_cases)
    case (finished s1 s2)
    note t = startup_tally[OF finished(1)]
    have "readCount s2 = 0 \<and> Vave s2 = 0 \<and> Aave s2 = 0 \<and> Tave s2 = 0 \<and>
         (\<exists>k. nA s2 + readCount s1 = nA s1 + k * readingsToAverage cfg) \<and>
         nV s2 + nA s1 = nV s1 + nA s2"
      by (rule main_loop_boundary[OF finished(2)]) (use t in auto)
    then show ?thesis using t finished(4) by (auto simp: summary_eq)
  qed simp_all
next
  assume "loop_body cfg env s0 = Some (None, s1) \<and> log_lines s1 = log_lines s0"
  then have b: "loop_body cfg env s0 = Some (None, s1)" and l: "log_lines s1 = log_lines s0" by simp_all
  from b show "volts s1 = volts s0" using l by (cases rule: loop_body_cases) simp_all
qed

theorem normal_exit_only_at_record_boundary_witness:
  "run_2S config_2S env_example = Some (None, st_example) \<and>
   loop_body config_2S env_example st_started = Some (None, st_after_first) \<and>
   log_lines st_after_first = log_lines st_started \<and>
   readCount st_example = 0 \<and> Vave st_example = 0 \<and> Aave st_example = 0 \<and> Tave st_example = 0 \<and>
   readingsToAverage config_2S dvd nA st_example \<and> nA st_example = 16 \<and>
   volts st_after_first = volts st_started"
  using normal_exit_only_at_record_boundary[of config_2S env_example st_example st_started st_after_first]
    run_2S_example loop_body_example_first
  by (simp add: st_defs config_2S_def)

end
